theory Spec2Isabelle
  imports Complex_Main "HOL-Library.Word" "HOL-Library.Monad_Syntax"
begin

unbundle bit_operations_syntax

section \<open>Data model of the BFD engine (include/bfd.h)\<close>

type_synonym u8 = "8 word"
type_synonym u32 = "32 word"

text \<open>
  A \<^verbatim>\<open>timeval_t\<close> is the pair (seconds, microseconds). A \<^verbatim>\<open>thread_t *\<close> handle is
  either \<^verbatim>\<open>NULL\<close> (\<open>None\<close>) or a timer known to the scheduler, kept here as the delay
  (a C \<^verbatim>\<open>long\<close>) it was armed with. A \<^verbatim>\<open>sockaddr_storage\<close> is its bytes.
\<close>

type_synonym timeval_t = "int \<times> int"
type_synonym thread_t = int
type_synonym sockaddr = "u8 list"

text \<open>RFC5881 constants, version, states and diagnostics, as the macros of bfd.h.\<close>

definition BFD_CONTROL_TTL :: "'a::len word" where "BFD_CONTROL_TTL = 255"
definition BFD_VERSION_1 :: "'a::len word" where "BFD_VERSION_1 = 1"

definition BFD_STATE_ADMINDOWN :: "'a::len word" where "BFD_STATE_ADMINDOWN = 0"
definition BFD_STATE_DOWN :: "'a::len word" where "BFD_STATE_DOWN = 1"
definition BFD_STATE_INIT :: "'a::len word" where "BFD_STATE_INIT = 2"
definition BFD_STATE_UP :: "'a::len word" where "BFD_STATE_UP = 3"

definition BFD_DIAG_NO_DIAG :: "'a::len word" where "BFD_DIAG_NO_DIAG = 0"
definition BFD_DIAG_EXPIRED :: "'a::len word" where "BFD_DIAG_EXPIRED = 1"
definition BFD_DIAG_NBR_SIGNALLED_DOWN :: "'a::len word" where "BFD_DIAG_NBR_SIGNALLED_DOWN = 3"
definition BFD_DIAG_ADMIN_DOWN :: "'a::len word" where "BFD_DIAG_ADMIN_DOWN = 7"

text \<open>
  \<^verbatim>\<open>BFD_VALID_STATE(s)\<close> is \<^verbatim>\<open>(s >= 0 && s <= 3)\<close> and \<^verbatim>\<open>BFD_VALID_DIAG(d)\<close> is
  \<^verbatim>\<open>(d >= 0 && d <= 8)\<close>; both compare the promoted C \<^verbatim>\<open>int\<close>.
\<close>

definition BFD_VALID_STATE :: "int \<Rightarrow> bool" where
  "BFD_VALID_STATE s = (s \<ge> 0 \<and> s \<le> 3)"

definition BFD_VALID_DIAG :: "int \<Rightarrow> bool" where
  "BFD_VALID_DIAG d = (d \<ge> 0 \<and> d \<le> 8)"

definition BFD_MINRX_DEFAULT :: int where "BFD_MINRX_DEFAULT = 10"
definition BFD_MINTX_DEFAULT :: int where "BFD_MINTX_DEFAULT = 10"
definition BFD_IDLETX_DEFAULT :: int where "BFD_IDLETX_DEFAULT = 1000"
definition BFD_MULTIPLIER_DEFAULT :: int where "BFD_MULTIPLIER_DEFAULT = 5"

text \<open>
  The control packet header \<^verbatim>\<open>bfdhdr_t\<close>. Each bit-field is a word of its width, so a
  2-bit state or a 5-bit diagnostic cannot hold more than the field can. The 32-bit
  fields hold the value as it lies in the buffer, in network byte order. The field
  names carry the prefix \<open>hdr_\<close> because \<^verbatim>\<open>bfd_t\<close> has fields of the same names.
\<close>

record bfdhdr_t =
  hdr_diag :: "5 word"
  hdr_version :: "3 word"
  hdr_multipoint :: "1 word"
  hdr_demand :: "1 word"
  hdr_auth :: "1 word"
  hdr_cplane :: "1 word"
  hdr_final :: "1 word"
  hdr_poll :: "1 word"
  hdr_state :: "2 word"
  hdr_detect_mult :: u8
  hdr_len :: u8
  hdr_local_discr :: u32
  hdr_remote_discr :: u32
  hdr_min_tx_intv :: u32
  hdr_min_rx_intv :: u32
  hdr_min_echo_rx_intv :: u32

text \<open>
  The packet \<^verbatim>\<open>bfdpkt_t\<close>: \<open>pkt_hdr\<close> is what \<^verbatim>\<open>pkt->hdr\<close> points to; \<^verbatim>\<open>pkt->buf\<close>
  is the same buffer and is left out.
\<close>

record bfdpkt_t =
  pkt_hdr :: bfdhdr_t
  pkt_src_addr :: sockaddr
  pkt_dst_addr :: sockaddr
  pkt_ttl :: u32
  pkt_len :: u32

text \<open>
  The session \<^verbatim>\<open>bfd_t\<close>. The output socket \<^verbatim>\<open>fd_out\<close> and the three
  \<^verbatim>\<open>sands_*\<close> snapshots (used only across a reload) are left out; every other field
  is here under its own name.
\<close>

record bfd_t =
  iname :: string
  nbr_addr :: sockaddr
  src_addr :: sockaddr
  local_min_rx_intv :: u32
  local_min_tx_intv :: u32
  local_idle_tx_intv :: u32
  local_detect_mult :: u8
  disabled :: int
  thread_out :: "thread_t option"
  thread_exp :: "thread_t option"
  thread_rst :: "thread_t option"
  local_state :: "2 word"
  remote_state :: "2 word"
  local_discr :: u32
  remote_discr :: u32
  local_diag :: "5 word"
  remote_diag :: "5 word"
  remote_min_tx_intv :: u32
  remote_min_rx_intv :: u32
  local_demand :: u8
  remote_demand :: u8
  remote_detect_mult :: u8
  poll :: u8
  final :: u8
  local_tx_intv :: u32
  remote_tx_intv :: u32
  local_detect_time :: u32
  remote_detect_time :: u32
  last_seen :: timeval_t

text \<open>
  \<^verbatim>\<open>ntohl\<close> and \<^verbatim>\<open>htonl\<close> on a little-endian host (the first branch of the
  \<^verbatim>\<open>__BYTE_ORDER\<close> test in bfd.h): the four bytes are reversed.
\<close>

definition ntohl :: "u32 \<Rightarrow> u32" where
  "ntohl x = push_bit 24 (x AND 0xFF) OR push_bit 8 (x AND 0xFF00)
             OR (drop_bit 8 x AND 0xFF00) OR drop_bit 24 x"

definition htonl :: "u32 \<Rightarrow> u32" where
  "htonl x = ntohl x"

section \<open>bfd.c\<close>

text \<open>
  \<^verbatim>\<open>assert(c)\<close> aborts the process when \<open>c\<close> is false: every function that asserts
  returns an option, and \<open>None\<close> is the abort.
\<close>

definition c_assert :: "bool \<Rightarrow> unit option" where
  "c_assert c = (if c then Some () else None)"

text \<open>
  \<^verbatim>\<open>bfd_check_packet\<close>: the sanity checks on a received packet, in the order of the
  source, each returning 1 at once; 0 when all pass. \<^verbatim>\<open>sizeof (bfdhdr_t)\<close> is 24.
\<close>

definition bfd_check_packet :: "bfdpkt_t \<Rightarrow> int" where
  "bfd_check_packet pkt =
    (if 24 > unat (pkt_len pkt) then 1
     else if ucast (hdr_len (pkt_hdr pkt)) \<noteq> pkt_len pkt then 1
     else if pkt_ttl pkt \<noteq> 0 \<and> pkt_ttl pkt \<noteq> BFD_CONTROL_TTL then 1
     else if hdr_version (pkt_hdr pkt) \<noteq> BFD_VERSION_1 then 1
     else if hdr_detect_mult (pkt_hdr pkt) = 0 then 1
     else if hdr_multipoint (pkt_hdr pkt) \<noteq> 0 then 1
     else if hdr_local_discr (pkt_hdr pkt) = 0 then 1
     else if hdr_remote_discr (pkt_hdr pkt) = 0
             \<and> hdr_state (pkt_hdr pkt) \<noteq> BFD_STATE_DOWN
             \<and> hdr_state (pkt_hdr pkt) \<noteq> BFD_STATE_ADMINDOWN then 1
     else if hdr_poll (pkt_hdr pkt) \<noteq> 0 \<and> hdr_final (pkt_hdr pkt) \<noteq> 0 then 1
     else if \<not> BFD_VALID_STATE (uint (hdr_state (pkt_hdr pkt))) then 1
     else if \<not> BFD_VALID_DIAG (uint (hdr_diag (pkt_hdr pkt))) then 1
     else 0)"

text \<open>The initial state \<^verbatim>\<open>bfd0\<close>: the designated fields, every other field zero.\<close>

definition bfd0 :: bfd_t where
  "bfd0 = \<lparr> iname = [], nbr_addr = [], src_addr = [],
      local_min_rx_intv = 0, local_min_tx_intv = 0, local_idle_tx_intv = 0,
      local_detect_mult = 0, disabled = 0,
      thread_out = None, thread_exp = None, thread_rst = None,
      local_state = BFD_STATE_DOWN, remote_state = BFD_STATE_DOWN,
      local_discr = 0, remote_discr = 0,
      local_diag = BFD_DIAG_NO_DIAG, remote_diag = BFD_DIAG_NO_DIAG,
      remote_min_tx_intv = 0, remote_min_rx_intv = 0,
      local_demand = 0, remote_demand = 0, remote_detect_mult = 0,
      poll = 0, final = 0,
      local_tx_intv = 0, remote_tx_intv = 0,
      local_detect_time = 0, remote_detect_time = 0,
      last_seen = (0, 0) \<rparr>"

definition bfd_update_local_tx_intv :: "'a bfd_t_scheme \<Rightarrow> 'a bfd_t_scheme" where
  "bfd_update_local_tx_intv bfd =
     bfd\<lparr>local_tx_intv :=
            (if local_min_tx_intv bfd > remote_min_rx_intv bfd
             then local_min_tx_intv bfd else remote_min_rx_intv bfd)\<rparr>"

definition bfd_update_remote_tx_intv :: "'a bfd_t_scheme \<Rightarrow> 'a bfd_t_scheme" where
  "bfd_update_remote_tx_intv bfd =
     bfd\<lparr>remote_tx_intv :=
            (if local_min_rx_intv bfd > remote_min_tx_intv bfd
             then local_min_rx_intv bfd else remote_min_tx_intv bfd)\<rparr>"

definition bfd_idle_local_tx_intv :: "'a bfd_t_scheme \<Rightarrow> 'a bfd_t_scheme" where
  "bfd_idle_local_tx_intv bfd = bfd\<lparr>local_tx_intv := local_idle_tx_intv bfd\<rparr>"

definition bfd_set_poll :: "'a bfd_t_scheme \<Rightarrow> 'a bfd_t_scheme" where
  "bfd_set_poll bfd = (if final bfd \<noteq> 1 then bfd\<lparr>poll := 1\<rparr> else bfd)"

text \<open>\<^verbatim>\<open>bfd_copy_state\<close>: the state variables and calculated values, field by field.\<close>

definition bfd_copy_state :: "'b bfd_t_scheme \<Rightarrow> 'a bfd_t_scheme \<Rightarrow> 'a bfd_t_scheme" where
  "bfd_copy_state bfd_old bfd =
     bfd\<lparr>local_state := local_state bfd_old,
         remote_state := remote_state bfd_old,
         local_discr := local_discr bfd_old,
         remote_discr := remote_discr bfd_old,
         local_diag := local_diag bfd_old,
         remote_diag := remote_diag bfd_old,
         remote_min_tx_intv := remote_min_tx_intv bfd_old,
         remote_min_rx_intv := remote_min_rx_intv bfd_old,
         local_demand := local_demand bfd_old,
         remote_demand := remote_demand bfd_old,
         remote_detect_mult := remote_detect_mult bfd_old,
         poll := poll bfd_old,
         final := final bfd_old,
         local_tx_intv := local_tx_intv bfd_old,
         remote_tx_intv := remote_tx_intv bfd_old,
         local_detect_time := local_detect_time bfd_old,
         remote_detect_time := remote_detect_time bfd_old,
         last_seen := last_seen bfd_old\<rparr>"

text \<open>
  Modelled from the spec: \<^verbatim>\<open>bfd_get_random_discr\<close>, which bfd.c calls and bfd_data.c
  (not among the sources) defines. The spec: "Discriminators are generated by rejection
  sampling of the non-zero 32-bit range against the discriminator map". The first
  argument lists the discriminators in the map, the second the successive draws of the
  random generator; the result is the first draw that is non-zero and not in the map,
  and \<open>None\<close> when none of the draws is accepted.
\<close>

fun bfd_get_random_discr :: "u32 list \<Rightarrow> u32 list \<Rightarrow> u32 option" where
  "bfd_get_random_discr in_use [] = None"
| "bfd_get_random_discr in_use (d # draws) =
     (if d \<noteq> 0 \<and> d \<notin> set in_use then Some d
      else bfd_get_random_discr in_use draws)"

text \<open>\<^verbatim>\<open>bfd_init_state\<close>: resets the instance to the initial state.\<close>

definition bfd_init_state ::
    "u32 list \<Rightarrow> u32 list \<Rightarrow> 'a bfd_t_scheme \<Rightarrow> 'a bfd_t_scheme option" where
  "bfd_init_state in_use draws bfd =
     (let bfd1 = bfd_copy_state bfd0 bfd in
      case bfd_get_random_discr in_use draws of
        None \<Rightarrow> None
      | Some d \<Rightarrow>
          Some ((bfd1\<lparr>local_discr := d\<rparr>)
                  \<lparr>local_tx_intv := local_idle_tx_intv (bfd1\<lparr>local_discr := d\<rparr>)\<rparr>))"

text \<open>
  \<^verbatim>\<open>bfd_build_packet\<close> fills the zeroed buffer and the packet structure; the fields of
  \<^verbatim>\<open>pkt\<close> it does not write keep the value they had. A \<^verbatim>\<open>u_char\<close> stored into a
  one-bit field keeps its lowest bit.
\<close>

definition bfd_build_packet :: "bfdpkt_t \<Rightarrow> 'a bfd_t_scheme \<Rightarrow> bfdpkt_t" where
  "bfd_build_packet pkt bfd =
     pkt\<lparr>pkt_hdr :=
           \<lparr> hdr_diag = local_diag bfd,
             hdr_version = BFD_VERSION_1,
             hdr_multipoint = 0,
             hdr_demand = ucast (local_demand bfd),
             hdr_auth = 0,
             hdr_cplane = 0,
             hdr_final = ucast (final bfd),
             hdr_poll = ucast (poll bfd),
             hdr_state = local_state bfd,
             hdr_detect_mult = local_detect_mult bfd,
             hdr_len = 24,
             hdr_local_discr = htonl (local_discr bfd),
             hdr_remote_discr = htonl (remote_discr bfd),
             hdr_min_tx_intv = htonl (local_min_tx_intv bfd),
             hdr_min_rx_intv = htonl (local_min_rx_intv bfd),
             hdr_min_echo_rx_intv = 0 \<rparr>,
         pkt_len := 24,
         pkt_dst_addr := nbr_addr bfd\<rparr>"

section \<open>bfd_event.c\<close>

text \<open>
  The record \<^verbatim>\<open>bfd_event_t\<close> written to the event pipe. bfd_event.h is not among the
  sources; the three fields are the ones \<^verbatim>\<open>bfd_event_send\<close> assigns.
\<close>

record bfd_event_t =
  evt_iname :: string
  evt_state :: u8
  evt_sent_time :: timeval_t

text \<open>
  What a session does to the outside is kept beside the session: the records written
  to the event pipe, the number of sender runs queued with \<^verbatim>\<open>thread_add_event\<close>, and
  the packets handed to \<^verbatim>\<open>sendto\<close>, each list in the order of the calls.
\<close>

record sys = bfd_t +
  event_pipe :: "bfd_event_t list"
  sender_events :: nat
  sent :: "bfdpkt_t list"

text \<open>
  \<^verbatim>\<open>bfd_event_send\<close>: \<^verbatim>\<open>strncpy\<close> copies at most 31 bytes of the name;
  \<open>now\<close> is what \<^verbatim>\<open>timer_now()\<close> returns. A failed \<^verbatim>\<open>write\<close> is only logged.
\<close>

definition bfd_event_send :: "timeval_t \<Rightarrow> sys \<Rightarrow> sys" where
  "bfd_event_send now bfd =
     bfd\<lparr>event_pipe := event_pipe bfd @
           [\<lparr> evt_iname = take 31 (iname bfd),
              evt_state = ucast (local_state bfd),
              evt_sent_time = now \<rparr>]\<rparr>"

section \<open>bfd_scheduler.c\<close>

definition BFD_ISADMINDOWN :: "'a bfd_t_scheme \<Rightarrow> bool" where
  "BFD_ISADMINDOWN b = (local_state b = BFD_STATE_ADMINDOWN)"

definition BFD_ISDOWN :: "'a bfd_t_scheme \<Rightarrow> bool" where
  "BFD_ISDOWN b = (local_state b = BFD_STATE_DOWN)"

definition BFD_ISINIT :: "'a bfd_t_scheme \<Rightarrow> bool" where
  "BFD_ISINIT b = (local_state b = BFD_STATE_INIT)"

definition BFD_ISUP :: "'a bfd_t_scheme \<Rightarrow> bool" where
  "BFD_ISUP b = (local_state b = BFD_STATE_UP)"

subsection \<open>Sender timer\<close>

text \<open>
  \<^verbatim>\<open>bfd_sender_schedule\<close>. The two products are computed in \<^verbatim>\<open>double\<close> and converted
  back to \<^verbatim>\<open>u_int32_t\<close>, which truncates. A 32-bit value is exact as a double and
  \<^verbatim>\<open>x * 0.25\<close> is exact, so its truncation is \<open>x div 4\<close>. The double nearest to 0.1 is
  \<open>0.1 + 0.2 / 2^55\<close>: the product \<^verbatim>\<open>x * 0.1\<close>, rounded to a double, is \<open>x / 10\<close> itself
  when that is a whole number (the excess is below half a unit in the last place) and
  otherwise differs from \<open>x / 10\<close> by less than \<open>1 / 10^6\<close>, while \<open>x / 10\<close> is at least a
  tenth away from the next whole number; so its truncation is \<open>x div 10\<close>.

  \<^verbatim>\<open>rand_intv\<close> is defined in bfd_data.c, which is not among the sources: it is a
  parameter, called with the minimum and the maximum jitter.
\<close>

definition bfd_sender_schedule :: "(u32 \<Rightarrow> u32 \<Rightarrow> u32) \<Rightarrow> sys \<Rightarrow> sys option" where
  "bfd_sender_schedule rand_intv bfd = do {
     c_assert (thread_out bfd = None);
     let min_jitter = (if local_detect_mult bfd \<noteq> 0 then local_tx_intv bfd div 10 else 0);
     let jitter = rand_intv min_jitter (local_tx_intv bfd div 4);
     Some (bfd\<lparr>thread_out := Some (uint (local_tx_intv bfd - jitter))\<rparr>)
   }"

definition bfd_sender_cancel :: "sys \<Rightarrow> sys option" where
  "bfd_sender_cancel bfd = do {
     c_assert (thread_out bfd \<noteq> None);
     Some (bfd\<lparr>thread_out := None\<rparr>)
   }"

definition bfd_sender_reschedule :: "(u32 \<Rightarrow> u32 \<Rightarrow> u32) \<Rightarrow> sys \<Rightarrow> sys option" where
  "bfd_sender_reschedule rand_intv bfd = do {
     bfd \<leftarrow> bfd_sender_cancel bfd;
     bfd_sender_schedule rand_intv bfd
   }"

definition bfd_sender_scheduled :: "sys \<Rightarrow> bool" where
  "bfd_sender_scheduled bfd = (thread_out bfd \<noteq> None)"

subsection \<open>Expiration timer\<close>

definition bfd_expire_schedule :: "sys \<Rightarrow> sys option" where
  "bfd_expire_schedule bfd = do {
     c_assert (thread_exp bfd = None);
     Some (bfd\<lparr>thread_exp := Some (uint (local_detect_time bfd))\<rparr>)
   }"

definition bfd_expire_cancel :: "sys \<Rightarrow> sys option" where
  "bfd_expire_cancel bfd = do {
     c_assert (thread_exp bfd \<noteq> None);
     Some (bfd\<lparr>thread_exp := None\<rparr>)
   }"

definition bfd_expire_reschedule :: "sys \<Rightarrow> sys option" where
  "bfd_expire_reschedule bfd = do {
     bfd \<leftarrow> bfd_expire_cancel bfd;
     bfd_expire_schedule bfd
   }"

definition bfd_expire_scheduled :: "sys \<Rightarrow> bool" where
  "bfd_expire_scheduled bfd = (thread_exp bfd \<noteq> None)"

subsection \<open>Reset timer\<close>

definition bfd_reset_schedule :: "sys \<Rightarrow> sys option" where
  "bfd_reset_schedule bfd = do {
     c_assert (thread_rst bfd = None);
     Some (bfd\<lparr>thread_rst := Some (uint (local_detect_time bfd))\<rparr>)
   }"

definition bfd_reset_cancel :: "sys \<Rightarrow> sys option" where
  "bfd_reset_cancel bfd = do {
     c_assert (thread_rst bfd \<noteq> None);
     Some (bfd\<lparr>thread_rst := None\<rparr>)
   }"

definition bfd_reset_scheduled :: "sys \<Rightarrow> bool" where
  "bfd_reset_scheduled bfd = (thread_rst bfd \<noteq> None)"

text \<open>
  \<^verbatim>\<open>bfd_reset_thread\<close> runs when the reset timer fires; the arguments are those of
  \<^verbatim>\<open>bfd_get_random_discr\<close>.
\<close>

definition bfd_reset_thread :: "u32 list \<Rightarrow> u32 list \<Rightarrow> sys \<Rightarrow> sys option" where
  "bfd_reset_thread in_use draws bfd = do {
     c_assert (thread_rst bfd \<noteq> None);
     bfd_init_state in_use draws (bfd\<lparr>thread_rst := None\<rparr>)
   }"

subsection \<open>State change handlers\<close>

definition bfd_state_fall :: "timeval_t \<Rightarrow> sys \<Rightarrow> sys option" where
  "bfd_state_fall now bfd = do {
     let bfd = bfd_idle_local_tx_intv bfd;
     bfd \<leftarrow> (if bfd_expire_scheduled bfd then bfd_expire_cancel bfd else Some bfd);
     Some (bfd_event_send now bfd)
   }"

text \<open>
  \<^verbatim>\<open>bfd_state_down\<close> takes the diagnostic as a \<^verbatim>\<open>char\<close>; the 5-bit field keeps its
  low five bits.
\<close>

definition bfd_state_down :: "timeval_t \<Rightarrow> u8 \<Rightarrow> sys \<Rightarrow> sys option" where
  "bfd_state_down now diag bfd = do {
     c_assert (BFD_VALID_DIAG (sint diag));
     let bfd = bfd\<lparr>local_state := BFD_STATE_DOWN\<rparr>;
     let bfd = bfd\<lparr>local_diag := ucast diag\<rparr>;
     bfd \<leftarrow> bfd_reset_schedule bfd;
     bfd_state_fall now bfd
   }"

definition bfd_state_admindown :: "timeval_t \<Rightarrow> sys \<Rightarrow> sys option" where
  "bfd_state_admindown now bfd = do {
     let bfd = bfd\<lparr>local_state := BFD_STATE_ADMINDOWN\<rparr>;
     let bfd = bfd\<lparr>local_diag := BFD_DIAG_ADMIN_DOWN\<rparr>;
     bfd \<leftarrow> (if bfd_sender_scheduled bfd then bfd_sender_cancel bfd else Some bfd);
     bfd_state_fall now bfd
   }"

definition bfd_state_rise :: "timeval_t \<Rightarrow> sys \<Rightarrow> sys option" where
  "bfd_state_rise now bfd = do {
     let bfd = bfd\<lparr>local_diag := BFD_DIAG_NO_DIAG\<rparr>;
     bfd \<leftarrow> (if bfd_reset_scheduled bfd then bfd_reset_cancel bfd else Some bfd);
     bfd \<leftarrow> (if \<not> bfd_expire_scheduled bfd then bfd_expire_schedule bfd else Some bfd);
     Some (bfd_event_send now bfd)
   }"

definition bfd_state_up :: "timeval_t \<Rightarrow> sys \<Rightarrow> sys option" where
  "bfd_state_up now bfd = bfd_state_rise now (bfd\<lparr>local_state := BFD_STATE_UP\<rparr>)"

definition bfd_state_init :: "timeval_t \<Rightarrow> sys \<Rightarrow> sys option" where
  "bfd_state_init now bfd = do {
     c_assert (\<not> BFD_ISUP bfd);
     bfd_state_rise now (bfd\<lparr>local_state := BFD_STATE_INIT\<rparr>)
   }"

text \<open>
  \<^verbatim>\<open>bfd_expire_thread\<close> runs when the expiration timer fires. The dead time and the
  overdue time are only logged.
\<close>

definition bfd_expire_thread :: "timeval_t \<Rightarrow> sys \<Rightarrow> sys option" where
  "bfd_expire_thread now bfd = do {
     c_assert (BFD_ISUP bfd \<or> BFD_ISINIT bfd);
     let bfd = bfd\<lparr>thread_exp := None\<rparr>;
     let bfd = bfd\<lparr>remote_discr := 0\<rparr>;
     bfd_state_down now BFD_DIAG_EXPIRED bfd
   }"

subsection \<open>Sender thread\<close>

text \<open>
  The packet structure \<^verbatim>\<open>MALLOC\<close> returns is zero-filled.
\<close>

definition pkt0 :: bfdpkt_t where
  "pkt0 = \<lparr> pkt_hdr = \<lparr> hdr_diag = 0, hdr_version = 0, hdr_multipoint = 0, hdr_demand = 0,
                hdr_auth = 0, hdr_cplane = 0, hdr_final = 0, hdr_poll = 0, hdr_state = 0,
                hdr_detect_mult = 0, hdr_len = 0, hdr_local_discr = 0, hdr_remote_discr = 0,
                hdr_min_tx_intv = 0, hdr_min_rx_intv = 0, hdr_min_echo_rx_intv = 0 \<rparr>,
            pkt_src_addr = [], pkt_dst_addr = [], pkt_ttl = 0, pkt_len = 0 \<rparr>"

text \<open>
  \<^verbatim>\<open>bfd_sender_thread\<close> sends one control packet and reschedules itself when it ran as
  a timer. \<open>is_event\<close> is \<^verbatim>\<open>thread->type == THREAD_EVENT\<close>; \<open>send_ok\<close> is false when
  \<^verbatim>\<open>bfd_send_packet\<close> returns -1.
\<close>

definition bfd_sender_thread ::
    "(u32 \<Rightarrow> u32 \<Rightarrow> u32) \<Rightarrow> timeval_t \<Rightarrow> bool \<Rightarrow> bool \<Rightarrow> sys \<Rightarrow> sys option" where
  "bfd_sender_thread rand_intv now is_event send_ok bfd = do {
     c_assert (\<not> BFD_ISADMINDOWN bfd);
     let bfd = bfd\<lparr>thread_out := None\<rparr>;
     let pkt = bfd_build_packet pkt0 bfd;
     let bfd = bfd\<lparr>sent := sent bfd @ [pkt]\<rparr>;
     bfd \<leftarrow> (if \<not> send_ok then bfd_state_admindown now bfd else Some bfd);
     let bfd = (if final bfd \<noteq> 0 then bfd\<lparr>final := 0\<rparr> else bfd);
     if \<not> is_event \<and> \<not> BFD_ISADMINDOWN bfd then bfd_sender_schedule rand_intv bfd
     else Some bfd
   }"

subsection \<open>Packet handling\<close>

text \<open>
  \<^verbatim>\<open>bfd_handle_packet\<close> is one function in the source; its body after the discards is
  cut here into the blocks its comments name, composed again below.

  "Update state variables" and "Terminate poll sequence".
\<close>

definition bfd_handle_remote :: "bfdhdr_t \<Rightarrow> sys \<Rightarrow> sys" where
  "bfd_handle_remote hdr bfd =
     (let bfd = bfd\<lparr>remote_discr := ntohl (hdr_local_discr hdr)\<rparr>;
          bfd = bfd\<lparr>remote_state := hdr_state hdr\<rparr>;
          bfd = bfd\<lparr>remote_diag := hdr_diag hdr\<rparr>;
          bfd = bfd\<lparr>remote_min_rx_intv := ntohl (hdr_min_rx_intv hdr)\<rparr>;
          bfd = bfd\<lparr>remote_min_tx_intv := ntohl (hdr_min_tx_intv hdr)\<rparr>;
          bfd = bfd\<lparr>remote_demand := ucast (hdr_demand hdr)\<rparr>;
          bfd = bfd\<lparr>remote_detect_mult := hdr_detect_mult hdr\<rparr>
      in if hdr_final hdr \<noteq> 0 then bfd\<lparr>poll := 0\<rparr> else bfd)"

text \<open>
  "Recalculate local and remote TX intervals", with the condition as the source writes
  it, and "Update the Detection Time". The old timers saved before are only compared
  for logging.
\<close>

definition bfd_handle_intervals :: "bfdhdr_t \<Rightarrow> sys \<Rightarrow> sys" where
  "bfd_handle_intervals hdr bfd =
     (let bfd = (if (hdr_final hdr \<noteq> 0 \<and> local_state bfd = BFD_STATE_UP)
                    \<or> (hdr_poll hdr \<noteq> 0 \<and> local_state bfd = BFD_STATE_UP)
                    \<or> local_state bfd \<noteq> BFD_STATE_UP
                 then bfd_update_remote_tx_intv (bfd_update_local_tx_intv bfd)
                 else bfd);
          bfd = bfd\<lparr>local_detect_time := ucast (remote_detect_mult bfd) * remote_tx_intv bfd\<rparr>;
          bfd = bfd\<lparr>remote_detect_time := ucast (local_detect_mult bfd) * local_tx_intv bfd\<rparr>
      in bfd)"

text \<open>"Reschedule sender if local_tx_intv is being reduced".\<close>

definition bfd_handle_reduced :: "(u32 \<Rightarrow> u32 \<Rightarrow> u32) \<Rightarrow> u32 \<Rightarrow> sys \<Rightarrow> sys option" where
  "bfd_handle_reduced rand_intv old_local_tx_intv bfd =
     (if local_tx_intv bfd < old_local_tx_intv \<and> bfd_sender_scheduled bfd
      then bfd_sender_reschedule rand_intv bfd else Some bfd)"

text \<open>"BFD state machine".\<close>

definition bfd_state_machine :: "timeval_t \<Rightarrow> sys \<Rightarrow> sys option" where
  "bfd_state_machine now bfd =
     (if remote_state bfd = BFD_STATE_ADMINDOWN \<and> local_state bfd \<noteq> BFD_STATE_DOWN
      then bfd_state_down now BFD_DIAG_NBR_SIGNALLED_DOWN bfd
      else if local_state bfd = BFD_STATE_DOWN then
             (if remote_state bfd = BFD_STATE_DOWN then bfd_state_init now bfd
              else if remote_state bfd = BFD_STATE_INIT then bfd_state_up now bfd
              else Some bfd)
      else if local_state bfd = BFD_STATE_INIT then
             (if remote_state bfd = BFD_STATE_INIT \<or> remote_state bfd = BFD_STATE_UP
              then bfd_state_up now bfd else Some bfd)
      else if local_state bfd = BFD_STATE_UP then
             (if remote_state bfd = BFD_STATE_DOWN
              then bfd_state_down now BFD_DIAG_NBR_SIGNALLED_DOWN bfd else Some bfd)
      else Some bfd)"

text \<open>The two tests on the remote demand flag, which cancel or schedule the sender.\<close>

definition bfd_handle_demand :: "(u32 \<Rightarrow> u32 \<Rightarrow> u32) \<Rightarrow> sys \<Rightarrow> sys option" where
  "bfd_handle_demand rand_intv bfd = do {
     bfd \<leftarrow> (if remote_demand bfd \<noteq> 0 \<and> local_state bfd = BFD_STATE_UP
                  \<and> remote_state bfd = BFD_STATE_UP \<and> bfd_sender_scheduled bfd
              then bfd_sender_cancel bfd else Some bfd);
     if (remote_demand bfd = 0 \<or> local_state bfd \<noteq> BFD_STATE_UP
           \<or> remote_state bfd \<noteq> BFD_STATE_UP) \<and> \<not> bfd_sender_scheduled bfd
     then bfd_sender_schedule rand_intv bfd else Some bfd
   }"

text \<open>
  The answer to a Poll: the final flag is set and a sender run is queued as an event.
\<close>

definition bfd_handle_poll :: "bfdhdr_t \<Rightarrow> sys \<Rightarrow> sys" where
  "bfd_handle_poll hdr bfd =
     (if hdr_poll hdr \<noteq> 0
      then (bfd\<lparr>final := 1\<rparr>)\<lparr>sender_events := sender_events bfd + 1\<rparr>
      else bfd)"

text \<open>"Update last seen timer" and "Delay expiration if scheduled".\<close>

definition bfd_handle_seen :: "timeval_t \<Rightarrow> sys \<Rightarrow> sys option" where
  "bfd_handle_seen now bfd =
     (let bfd = bfd\<lparr>last_seen := now\<rparr>
      in if bfd_expire_scheduled bfd then bfd_expire_reschedule bfd else Some bfd)"

text \<open>
  The session lookup. \<^verbatim>\<open>find_bfd_by_addr\<close> and \<^verbatim>\<open>find_bfd_by_discr\<close> are defined in
  bfd_data.c, which is not among the sources. The model follows one session, so each
  is a parameter that tells whether the lookup returns this session (otherwise it
  returns \<^verbatim>\<open>NULL\<close>).
\<close>

definition bfd_lookup :: "(sockaddr \<Rightarrow> bool) \<Rightarrow> (u32 \<Rightarrow> bool) \<Rightarrow> bfdpkt_t \<Rightarrow> bool" where
  "bfd_lookup find_bfd_by_addr find_bfd_by_discr pkt =
     (if hdr_remote_discr (pkt_hdr pkt) = 0 then find_bfd_by_addr (pkt_src_addr pkt)
      else find_bfd_by_discr (ntohl (hdr_remote_discr (pkt_hdr pkt))))"

text \<open>
  \<^verbatim>\<open>bfd_handle_packet\<close>: the four discards return with the session as it was, then
  the blocks run in the order of the source. \<open>now\<close> is what \<^verbatim>\<open>timer_now()\<close> returns.
\<close>

definition bfd_handle_packet ::
    "(sockaddr \<Rightarrow> bool) \<Rightarrow> (u32 \<Rightarrow> bool) \<Rightarrow> (u32 \<Rightarrow> u32 \<Rightarrow> u32) \<Rightarrow> timeval_t
       \<Rightarrow> bfdpkt_t \<Rightarrow> sys \<Rightarrow> sys option" where
  "bfd_handle_packet find_bfd_by_addr find_bfd_by_discr rand_intv now pkt bfd =
     (if bfd_check_packet pkt \<noteq> 0 then Some bfd
      else if \<not> bfd_lookup find_bfd_by_addr find_bfd_by_discr pkt then Some bfd
      else if hdr_auth (pkt_hdr pkt) \<noteq> 0 then Some bfd
      else if local_state bfd = BFD_STATE_ADMINDOWN then Some bfd
      else do {
        let old_local_tx_intv = local_tx_intv (bfd_handle_remote (pkt_hdr pkt) bfd);
        let bfd = bfd_handle_intervals (pkt_hdr pkt) (bfd_handle_remote (pkt_hdr pkt) bfd);
        bfd \<leftarrow> bfd_handle_reduced rand_intv old_local_tx_intv bfd;
        bfd \<leftarrow> bfd_state_machine now bfd;
        bfd \<leftarrow> bfd_handle_demand rand_intv bfd;
        bfd_handle_seen now (bfd_handle_poll (pkt_hdr pkt) bfd)
      })"

text \<open>
  A packet is accepted by a session when none of the four discards applies.
\<close>

definition bfd_accepted ::
    "(sockaddr \<Rightarrow> bool) \<Rightarrow> (u32 \<Rightarrow> bool) \<Rightarrow> bfdpkt_t \<Rightarrow> sys \<Rightarrow> bool" where
  "bfd_accepted find_bfd_by_addr find_bfd_by_discr pkt bfd =
     (bfd_check_packet pkt = 0
      \<and> bfd_lookup find_bfd_by_addr find_bfd_by_discr pkt
      \<and> hdr_auth (pkt_hdr pkt) = 0
      \<and> local_state bfd \<noteq> BFD_STATE_ADMINDOWN)"

section \<open>bfd_parser.c\<close>











definition bfd_disabled_handler :: "bfd_t list \<Rightarrow> bfd_t list option" where
  "bfd_disabled_handler bfd_data = do {
     c_assert (bfd_data \<noteq> []);
     Some (butlast bfd_data @ [(last bfd_data)\<lparr>disabled := 1\<rparr>])
   }"

section \<open>Derived notions\<close>

text \<open>
  The branches of the state machine in \<^verbatim>\<open>bfd_handle_packet\<close>, as conditions on the
  local state and the state the packet carries: the two that call \<^verbatim>\<open>bfd_state_down\<close>,
  the one that calls \<^verbatim>\<open>bfd_state_init\<close>, the two that call \<^verbatim>\<open>bfd_state_up\<close>.
\<close>

definition bfd_goes_down :: "2 word \<Rightarrow> 2 word \<Rightarrow> bool" where
  "bfd_goes_down l r =
     ((r = BFD_STATE_ADMINDOWN \<and> l \<noteq> BFD_STATE_DOWN) \<or> (l = BFD_STATE_UP \<and> r = BFD_STATE_DOWN))"

definition bfd_goes_init :: "2 word \<Rightarrow> 2 word \<Rightarrow> bool" where
  "bfd_goes_init l r = (l = BFD_STATE_DOWN \<and> r = BFD_STATE_DOWN)"

definition bfd_goes_up :: "2 word \<Rightarrow> 2 word \<Rightarrow> bool" where
  "bfd_goes_up l r =
     ((l = BFD_STATE_DOWN \<and> r = BFD_STATE_INIT)
      \<or> (l = BFD_STATE_INIT \<and> (r = BFD_STATE_INIT \<or> r = BFD_STATE_UP)))"

text \<open>
  The reset timer is scheduled only by \<^verbatim>\<open>bfd_state_down\<close> and cancelled by
  \<^verbatim>\<open>bfd_state_rise\<close>: while a session is Up or Init it is not scheduled. The functions
  that call \<^verbatim>\<open>bfd_state_down\<close> rely on this, because \<^verbatim>\<open>bfd_reset_schedule\<close> asserts it.
\<close>

definition bfd_timers_ok :: "sys \<Rightarrow> bool" where
  "bfd_timers_ok bfd = (BFD_ISUP bfd \<or> BFD_ISINIT bfd \<longrightarrow> thread_rst bfd = None)"

text \<open>
  The states of a session. It starts with no reset timer scheduled; then packets are
  handled, the sender runs as a timer or as an event, the expiration timer and the
  reset timer fire, and poll sequences are started, in any order and with any
  arguments. A run that fails an assertion ends there.
\<close>

inductive bfd_reachable :: "sys \<Rightarrow> bool" where
  bfd_reachable_start: "thread_rst s = None \<Longrightarrow> bfd_reachable s"
| bfd_reachable_packet:
    "bfd_reachable s \<Longrightarrow> bfd_handle_packet fa fd r now pkt s = Some s' \<Longrightarrow> bfd_reachable s'"
| bfd_reachable_sender:
    "bfd_reachable s \<Longrightarrow> bfd_sender_thread r now is_event send_ok s = Some s'
       \<Longrightarrow> bfd_reachable s'"
| bfd_reachable_expire:
    "bfd_reachable s \<Longrightarrow> thread_exp s \<noteq> None \<Longrightarrow> bfd_expire_thread now s = Some s'
       \<Longrightarrow> bfd_reachable s'"
| bfd_reachable_reset:
    "bfd_reachable s \<Longrightarrow> bfd_reset_thread in_use draws s = Some s' \<Longrightarrow> bfd_reachable s'"
| bfd_reachable_poll:
    "bfd_reachable s \<Longrightarrow> bfd_reachable (bfd_set_poll s)"

section \<open>Example values\<close>

text \<open>
  A session named peerA with the default parameters (10 ms, 10 ms, 1 s, multiplier 5)
  in the state \<^verbatim>\<open>bfd_init_state\<close> leaves it in, its sender scheduled.
\<close>

definition example_session :: sys where
  "example_session = \<lparr> iname = ''peerA'', nbr_addr = [], src_addr = [],
      local_min_rx_intv = 10000, local_min_tx_intv = 10000, local_idle_tx_intv = 1000000,
      local_detect_mult = 5, disabled = 0,
      thread_out = Some 800000, thread_exp = None, thread_rst = None,
      local_state = BFD_STATE_DOWN, remote_state = BFD_STATE_DOWN,
      local_discr = 7, remote_discr = 0,
      local_diag = BFD_DIAG_NO_DIAG, remote_diag = BFD_DIAG_NO_DIAG,
      remote_min_tx_intv = 0, remote_min_rx_intv = 0,
      local_demand = 0, remote_demand = 0, remote_detect_mult = 0,
      poll = 0, final = 0,
      local_tx_intv = 1000000, remote_tx_intv = 0,
      local_detect_time = 0, remote_detect_time = 0,
      last_seen = (0, 0),
      event_pipe = [], sender_events = 0, sent = [] \<rparr>"

text \<open>
  A well-formed control packet of 24 bytes with TTL 255, non-zero discriminators,
  multiplier 3 and all intervals 0, carrying the given state, poll, final and auth bits.
\<close>

definition example_packet :: "2 word \<Rightarrow> 1 word \<Rightarrow> 1 word \<Rightarrow> 1 word \<Rightarrow> bfdpkt_t" where
  "example_packet st p f a =
     \<lparr> pkt_hdr = \<lparr> hdr_diag = 0, hdr_version = 1, hdr_multipoint = 0, hdr_demand = 0,
                   hdr_auth = a, hdr_cplane = 0, hdr_final = f, hdr_poll = p, hdr_state = st,
                   hdr_detect_mult = 3, hdr_len = 24, hdr_local_discr = 9,
                   hdr_remote_discr = 7, hdr_min_tx_intv = 0, hdr_min_rx_intv = 0,
                   hdr_min_echo_rx_intv = 0 \<rparr>,
       pkt_src_addr = [], pkt_dst_addr = [], pkt_ttl = 255, pkt_len = 24 \<rparr>"

text \<open>
  Lookups that find the session for every key, and a jitter draw that returns the
  smallest value allowed.
\<close>

definition example_find_addr :: "sockaddr \<Rightarrow> bool" where
  "example_find_addr a = True"

definition example_find_discr :: "u32 \<Rightarrow> bool" where
  "example_find_discr d = True"

definition example_rand_intv :: "u32 \<Rightarrow> u32 \<Rightarrow> u32" where
  "example_rand_intv lo hi = lo"

section \<open>Auxiliary facts\<close>

lemmas bfd_state_defs =
  BFD_STATE_ADMINDOWN_def BFD_STATE_DOWN_def BFD_STATE_INIT_def BFD_STATE_UP_def

lemmas bfd_diag_defs =
  BFD_DIAG_NO_DIAG_def BFD_DIAG_EXPIRED_def BFD_DIAG_NBR_SIGNALLED_DOWN_def
  BFD_DIAG_ADMIN_DOWN_def

lemmas bfd_timer_defs =
  bfd_sender_schedule_def bfd_sender_cancel_def bfd_sender_reschedule_def
  bfd_sender_scheduled_def bfd_expire_schedule_def bfd_expire_cancel_def
  bfd_expire_reschedule_def bfd_expire_scheduled_def bfd_reset_schedule_def
  bfd_reset_cancel_def bfd_reset_scheduled_def c_assert_def

lemmas bfd_is_defs = BFD_ISADMINDOWN_def BFD_ISDOWN_def BFD_ISINIT_def BFD_ISUP_def

lemmas bfd_goes_defs = bfd_goes_down_def bfd_goes_init_def bfd_goes_up_def

lemma two_bit_cases: "w = 0 \<or> w = 1 \<or> w = 2 \<or> w = 3" for w :: "2 word"
proof -
  have "unat w < 4"
    using unsigned_less [of w, where ?'a = nat] by simp
  then have "unat w = 0 \<or> unat w = 1 \<or> unat w = 2 \<or> unat w = 3" by arith
  then show ?thesis by (auto simp: word_eq_iff_unsigned [where ?'a = nat])
qed

lemma two_bit_valid: "BFD_VALID_STATE (uint w)" for w :: "2 word"
  using uint_lt2p [of w] by (simp add: BFD_VALID_STATE_def)

lemma thread_exp_same: "thread_exp s = t \<Longrightarrow> s\<lparr>thread_exp := t\<rparr> = s"
  by auto

lemma thread_rst_same: "thread_rst s = t \<Longrightarrow> s\<lparr>thread_rst := t\<rparr> = s"
  by auto

lemma thread_out_ex: "\<exists>t. s = s\<lparr>thread_out := t\<rparr>"
  by (rule exI [of _ "thread_out s"]) simp

subsection \<open>The example values\<close>

lemma example_packet_checked:
  "p = 0 \<or> f = 0 \<Longrightarrow> bfd_check_packet (example_packet st p f a) = 0"
  by (auto simp: bfd_check_packet_def example_packet_def two_bit_valid BFD_VALID_DIAG_def
                BFD_CONTROL_TTL_def BFD_VERSION_1_def)

lemma example_lookup: "bfd_lookup example_find_addr example_find_discr pkt"
  by (simp add: bfd_lookup_def example_find_addr_def example_find_discr_def)

lemma example_packet_fields:
  "hdr_state (pkt_hdr (example_packet st p f a)) = st"
  "hdr_poll (pkt_hdr (example_packet st p f a)) = p"
  "hdr_final (pkt_hdr (example_packet st p f a)) = f"
  "hdr_auth (pkt_hdr (example_packet st p f a)) = a"
  "hdr_min_tx_intv (pkt_hdr (example_packet st p f a)) = 0"
  "hdr_min_rx_intv (pkt_hdr (example_packet st p f a)) = 0"
  by (simp_all add: example_packet_def)

lemma example_session_fields:
  "local_state example_session = BFD_STATE_DOWN"
  "thread_rst example_session = None"
  "poll example_session = 0" "final example_session = 0"
  "local_tx_intv example_session = 1000000"
  "local_idle_tx_intv example_session = 1000000"
  "local_min_tx_intv example_session = 10000"
  "local_min_rx_intv example_session = 10000"
  "remote_tx_intv example_session = 0"
  by (simp_all add: example_session_def)

lemma example_accepted:
  assumes "local_state s \<noteq> BFD_STATE_ADMINDOWN" and "p = 0 \<or> f = 0"
  shows "bfd_accepted example_find_addr example_find_discr (example_packet st p f 0) s"
  using assms
  by (simp add: bfd_accepted_def example_packet_checked example_lookup example_packet_fields)

lemma ntohl_0: "ntohl 0 = 0"
  by (simp add: ntohl_def)

subsection \<open>What each block of the handler changes\<close>

lemma bfd_handle_reduced_result:
  "\<exists>t. bfd_handle_reduced rand_intv old s = Some (s\<lparr>thread_out := t\<rparr>)"
  by (auto simp: bfd_handle_reduced_def bfd_timer_defs thread_out_ex)

lemma bfd_handle_demand_result:
  "\<exists>t. bfd_handle_demand rand_intv s = Some (s\<lparr>thread_out := t\<rparr>)"
  by (auto simp: bfd_handle_demand_def bfd_timer_defs thread_out_ex)

lemma bfd_handle_seen_result:
  "\<exists>t. bfd_handle_seen now s = Some (s\<lparr>last_seen := now, thread_exp := t\<rparr>)"
proof (cases "thread_exp s")
  case None
  then have "bfd_handle_seen now s = Some (s\<lparr>last_seen := now, thread_exp := None\<rparr>)"
    by (simp add: bfd_handle_seen_def bfd_timer_defs Let_def thread_exp_same)
  then show ?thesis by blast
next
  case (Some a)
  then have "bfd_handle_seen now s =
      Some (s\<lparr>last_seen := now, thread_exp := Some (uint (local_detect_time s))\<rparr>)"
    by (simp add: bfd_handle_seen_def bfd_timer_defs Let_def)
  then show ?thesis by blast
qed

lemma bfd_state_fall_result:
  "bfd_state_fall now s =
     Some (bfd_event_send now (s\<lparr>local_tx_intv := local_idle_tx_intv s, thread_exp := None\<rparr>))"
  by (cases "thread_exp s")
     (auto simp: bfd_state_fall_def bfd_timer_defs bfd_idle_local_tx_intv_def thread_exp_same)

lemma bfd_state_down_result:
  assumes "thread_rst s = None" and "BFD_VALID_DIAG (sint d)"
  shows "bfd_state_down now d s =
     Some (bfd_event_send now
       (s\<lparr>local_state := BFD_STATE_DOWN, local_diag := ucast d,
          thread_rst := Some (uint (local_detect_time s)),
          local_tx_intv := local_idle_tx_intv s, thread_exp := None\<rparr>))"
  using assms by (simp add: bfd_state_down_def bfd_state_fall_result bfd_timer_defs)

lemma bfd_state_rise_result:
  "\<exists>t. bfd_state_rise now s =
     Some (bfd_event_send now
       (s\<lparr>local_diag := BFD_DIAG_NO_DIAG, thread_rst := None, thread_exp := Some t\<rparr>))"
proof -
  have rst: "(if bfd_reset_scheduled s' then bfd_reset_cancel s' else Some s')
               = Some (s'\<lparr>thread_rst := None\<rparr>)" for s' :: sys
    by (cases "thread_rst s'") (auto simp: bfd_timer_defs thread_rst_same)
  show ?thesis
  proof (cases "thread_exp s")
    case None
    then have "bfd_state_rise now s =
      Some (bfd_event_send now
       (s\<lparr>local_diag := BFD_DIAG_NO_DIAG, thread_rst := None,
          thread_exp := Some (uint (local_detect_time s))\<rparr>))"
      by (simp add: bfd_state_rise_def rst) (simp add: bfd_timer_defs)
    then show ?thesis by blast
  next
    case (Some a)
    then have "bfd_state_rise now s =
      Some (bfd_event_send now
       (s\<lparr>local_diag := BFD_DIAG_NO_DIAG, thread_rst := None, thread_exp := Some a\<rparr>))"
      by (simp add: bfd_state_rise_def rst) (simp add: bfd_timer_defs thread_exp_same)
    then show ?thesis by blast
  qed
qed

subsection \<open>The state machine, branch by branch\<close>

lemma bfd_state_machine_down:
  assumes "bfd_goes_down (local_state u) (remote_state u)"
  shows "bfd_state_machine now u = bfd_state_down now BFD_DIAG_NBR_SIGNALLED_DOWN u"
  using assms by (auto simp: bfd_state_machine_def bfd_goes_down_def bfd_state_defs)

lemma bfd_state_machine_init:
  assumes "bfd_goes_init (local_state u) (remote_state u)"
  shows "bfd_state_machine now u = bfd_state_rise now (u\<lparr>local_state := BFD_STATE_INIT\<rparr>)"
  using assms
  by (auto simp: bfd_state_machine_def bfd_goes_init_def bfd_state_defs bfd_state_init_def
                 BFD_ISUP_def c_assert_def)

lemma bfd_state_machine_up:
  assumes "bfd_goes_up (local_state u) (remote_state u)"
  shows "bfd_state_machine now u = bfd_state_rise now (u\<lparr>local_state := BFD_STATE_UP\<rparr>)"
  using assms
  by (auto simp: bfd_state_machine_def bfd_goes_up_def bfd_state_defs bfd_state_up_def)

lemma bfd_state_machine_stay:
  assumes "\<not> bfd_goes_down (local_state u) (remote_state u)"
      and "\<not> bfd_goes_init (local_state u) (remote_state u)"
      and "\<not> bfd_goes_up (local_state u) (remote_state u)"
  shows "bfd_state_machine now u = Some u"
  using assms two_bit_cases [of "local_state u"] two_bit_cases [of "remote_state u"]
  by (auto simp: bfd_state_machine_def bfd_goes_defs bfd_state_defs)

lemma bfd_state_machine_fields:
  assumes inv: "local_state u \<noteq> BFD_STATE_DOWN \<longrightarrow> thread_rst u = None"
  shows "\<exists>u'. bfd_state_machine now u = Some u'
     \<and> local_state u' =
               (if bfd_goes_down (local_state u) (remote_state u) then BFD_STATE_DOWN
                else if bfd_goes_init (local_state u) (remote_state u) then BFD_STATE_INIT
                else if bfd_goes_up (local_state u) (remote_state u) then BFD_STATE_UP
                else local_state u)
     \<and> local_diag u' =
               (if bfd_goes_down (local_state u) (remote_state u)
                then BFD_DIAG_NBR_SIGNALLED_DOWN
                else if bfd_goes_init (local_state u) (remote_state u)
                        \<or> bfd_goes_up (local_state u) (remote_state u) then BFD_DIAG_NO_DIAG
                else local_diag u)
     \<and> local_tx_intv u' =
               (if bfd_goes_down (local_state u) (remote_state u) then local_idle_tx_intv u
                else local_tx_intv u)
     \<and> thread_rst u' =
               (if bfd_goes_down (local_state u) (remote_state u)
                then Some (uint (local_detect_time u))
                else if bfd_goes_init (local_state u) (remote_state u)
                        \<or> bfd_goes_up (local_state u) (remote_state u) then None
                else thread_rst u)
     \<and> remote_tx_intv u' = remote_tx_intv u
     \<and> remote_state u' = remote_state u
     \<and> poll u' = poll u \<and> final u' = final u \<and> sent u' = sent u"
proof -
  consider (down) "bfd_goes_down (local_state u) (remote_state u)"
    | (init) "\<not> bfd_goes_down (local_state u) (remote_state u)"
             "bfd_goes_init (local_state u) (remote_state u)"
    | (up) "\<not> bfd_goes_down (local_state u) (remote_state u)"
           "\<not> bfd_goes_init (local_state u) (remote_state u)"
           "bfd_goes_up (local_state u) (remote_state u)"
    | (stay) "\<not> bfd_goes_down (local_state u) (remote_state u)"
             "\<not> bfd_goes_init (local_state u) (remote_state u)"
             "\<not> bfd_goes_up (local_state u) (remote_state u)"
    by blast
  then show ?thesis
  proof cases
    case down
    then have "thread_rst u = None"
      using inv by (auto simp: bfd_goes_down_def bfd_state_defs)
    then have "bfd_state_machine now u = Some (bfd_event_send now
       (u\<lparr>local_state := BFD_STATE_DOWN,
          local_diag := ucast (BFD_DIAG_NBR_SIGNALLED_DOWN :: u8),
          thread_rst := Some (uint (local_detect_time u)),
          local_tx_intv := local_idle_tx_intv u, thread_exp := None\<rparr>))"
      using down
      by (simp add: bfd_state_machine_down bfd_state_down_result BFD_VALID_DIAG_def
                    bfd_diag_defs)
    then show ?thesis
      using down by (simp add: bfd_event_send_def bfd_diag_defs)
  next
    case init
    obtain t where "bfd_state_rise now (u\<lparr>local_state := BFD_STATE_INIT\<rparr>) =
        Some (bfd_event_send now (u\<lparr>local_state := BFD_STATE_INIT,
           local_diag := BFD_DIAG_NO_DIAG, thread_rst := None, thread_exp := Some t\<rparr>))"
      using bfd_state_rise_result [of now "u\<lparr>local_state := BFD_STATE_INIT\<rparr>"] by auto
    then show ?thesis
      using init by (simp add: bfd_state_machine_init bfd_event_send_def)
  next
    case up
    obtain t where "bfd_state_rise now (u\<lparr>local_state := BFD_STATE_UP\<rparr>) =
        Some (bfd_event_send now (u\<lparr>local_state := BFD_STATE_UP,
           local_diag := BFD_DIAG_NO_DIAG, thread_rst := None, thread_exp := Some t\<rparr>))"
      using bfd_state_rise_result [of now "u\<lparr>local_state := BFD_STATE_UP\<rparr>"] by auto
    then show ?thesis
      using up by (simp add: bfd_state_machine_up bfd_event_send_def)
  next
    case stay
    then show ?thesis
      by (simp add: bfd_state_machine_stay)
  qed
qed

subsection \<open>The handler on an accepted packet\<close>

lemma bfd_handle_remote_fields:
  "local_state (bfd_handle_remote h s) = local_state s"
  "local_diag (bfd_handle_remote h s) = local_diag s"
  "thread_rst (bfd_handle_remote h s) = thread_rst s"
  "remote_state (bfd_handle_remote h s) = hdr_state h"
  "remote_min_rx_intv (bfd_handle_remote h s) = ntohl (hdr_min_rx_intv h)"
  "remote_min_tx_intv (bfd_handle_remote h s) = ntohl (hdr_min_tx_intv h)"
  "local_min_rx_intv (bfd_handle_remote h s) = local_min_rx_intv s"
  "local_min_tx_intv (bfd_handle_remote h s) = local_min_tx_intv s"
  "local_idle_tx_intv (bfd_handle_remote h s) = local_idle_tx_intv s"
  "local_tx_intv (bfd_handle_remote h s) = local_tx_intv s"
  "remote_tx_intv (bfd_handle_remote h s) = remote_tx_intv s"
  "poll (bfd_handle_remote h s) = (if hdr_final h \<noteq> 0 then 0 else poll s)"
  "final (bfd_handle_remote h s) = final s"
  "sent (bfd_handle_remote h s) = sent s"
  by (simp_all add: bfd_handle_remote_def Let_def)

lemma bfd_handle_intervals_fields:
  "local_state (bfd_handle_intervals h s) = local_state s"
  "local_diag (bfd_handle_intervals h s) = local_diag s"
  "thread_rst (bfd_handle_intervals h s) = thread_rst s"
  "remote_state (bfd_handle_intervals h s) = remote_state s"
  "local_idle_tx_intv (bfd_handle_intervals h s) = local_idle_tx_intv s"
  "poll (bfd_handle_intervals h s) = poll s"
  "final (bfd_handle_intervals h s) = final s"
  "local_tx_intv (bfd_handle_intervals h s) =
     (if hdr_final h \<noteq> 0 \<or> hdr_poll h \<noteq> 0 \<or> local_state s \<noteq> BFD_STATE_UP
      then max (local_min_tx_intv s) (remote_min_rx_intv s) else local_tx_intv s)"
  "remote_tx_intv (bfd_handle_intervals h s) =
     (if hdr_final h \<noteq> 0 \<or> hdr_poll h \<noteq> 0 \<or> local_state s \<noteq> BFD_STATE_UP
      then max (local_min_rx_intv s) (remote_min_tx_intv s) else remote_tx_intv s)"
  "sent (bfd_handle_intervals h s) = sent s"
  by (auto simp: bfd_handle_intervals_def Let_def bfd_update_local_tx_intv_def
                 bfd_update_remote_tx_intv_def max_def)

lemma bfd_timers_ok_accepted:
  assumes "bfd_timers_ok s" and "local_state s \<noteq> BFD_STATE_ADMINDOWN"
  shows "local_state s \<noteq> BFD_STATE_DOWN \<longrightarrow> thread_rst s = None"
  using assms two_bit_cases [of "local_state s"]
  by (auto simp: bfd_timers_ok_def bfd_is_defs bfd_state_defs)

lemma bfd_handle_packet_fields:
  assumes acc: "bfd_accepted fa fd pkt s"
      and ok: "bfd_timers_ok s"
  shows "\<exists>s'. bfd_handle_packet fa fd r now pkt s = Some s'
     \<and> local_state s' =
         (if bfd_goes_down (local_state s) (hdr_state (pkt_hdr pkt)) then BFD_STATE_DOWN
          else if bfd_goes_init (local_state s) (hdr_state (pkt_hdr pkt)) then BFD_STATE_INIT
          else if bfd_goes_up (local_state s) (hdr_state (pkt_hdr pkt)) then BFD_STATE_UP
          else local_state s)
     \<and> local_diag s' =
         (if bfd_goes_down (local_state s) (hdr_state (pkt_hdr pkt))
          then BFD_DIAG_NBR_SIGNALLED_DOWN
          else if bfd_goes_init (local_state s) (hdr_state (pkt_hdr pkt))
                  \<or> bfd_goes_up (local_state s) (hdr_state (pkt_hdr pkt)) then BFD_DIAG_NO_DIAG
          else local_diag s)
     \<and> local_tx_intv s' =
         (if bfd_goes_down (local_state s) (hdr_state (pkt_hdr pkt)) then local_idle_tx_intv s
          else local_tx_intv (bfd_handle_intervals (pkt_hdr pkt)
                                (bfd_handle_remote (pkt_hdr pkt) s)))
     \<and> remote_tx_intv s' =
          remote_tx_intv (bfd_handle_intervals (pkt_hdr pkt)
                                (bfd_handle_remote (pkt_hdr pkt) s))
     \<and> (local_state s' \<noteq> BFD_STATE_DOWN \<longrightarrow> thread_rst s' = None)
     \<and> remote_state s' = hdr_state (pkt_hdr pkt)
     \<and> poll s' = (if hdr_final (pkt_hdr pkt) \<noteq> 0 then 0 else poll s)
     \<and> final s' = (if hdr_poll (pkt_hdr pkt) \<noteq> 0 then 1 else final s)
     \<and> sent s' = sent s"
proof -
  have inv: "local_state s \<noteq> BFD_STATE_DOWN \<longrightarrow> thread_rst s = None"
    using acc ok by (simp add: bfd_timers_ok_accepted bfd_accepted_def)
  define h where "h = pkt_hdr pkt"
  define s1 where "s1 = bfd_handle_intervals h (bfd_handle_remote h s)"
  obtain t1 where red:
    "bfd_handle_reduced r (local_tx_intv (bfd_handle_remote h s)) s1
       = Some (s1\<lparr>thread_out := t1\<rparr>)"
    using bfd_handle_reduced_result by blast
  define u where "u = s1\<lparr>thread_out := t1\<rparr>"
  have u: "local_state u = local_state s" "remote_state u = hdr_state h"
    "local_diag u = local_diag s" "thread_rst u = thread_rst s"
    "local_idle_tx_intv u = local_idle_tx_intv s" "local_tx_intv u = local_tx_intv s1"
    "remote_tx_intv u = remote_tx_intv s1"
    "poll u = (if hdr_final h \<noteq> 0 then 0 else poll s)" "final u = final s"
    "sent u = sent s"
    by (simp_all add: u_def s1_def bfd_handle_intervals_fields(1-7,10)
                      bfd_handle_remote_fields)
  have "local_state u \<noteq> BFD_STATE_DOWN \<longrightarrow> thread_rst u = None"
    using inv by (simp add: u)
  from bfd_state_machine_fields [OF this, of now]
  obtain u' where sm: "bfd_state_machine now u = Some u'"
    and u': "local_state u' =
               (if bfd_goes_down (local_state u) (remote_state u) then BFD_STATE_DOWN
                else if bfd_goes_init (local_state u) (remote_state u) then BFD_STATE_INIT
                else if bfd_goes_up (local_state u) (remote_state u) then BFD_STATE_UP
                else local_state u)"
     "local_diag u' =
               (if bfd_goes_down (local_state u) (remote_state u)
                then BFD_DIAG_NBR_SIGNALLED_DOWN
                else if bfd_goes_init (local_state u) (remote_state u)
                        \<or> bfd_goes_up (local_state u) (remote_state u) then BFD_DIAG_NO_DIAG
                else local_diag u)"
     "local_tx_intv u' =
               (if bfd_goes_down (local_state u) (remote_state u) then local_idle_tx_intv u
                else local_tx_intv u)"
     "thread_rst u' =
               (if bfd_goes_down (local_state u) (remote_state u)
                then Some (uint (local_detect_time u))
                else if bfd_goes_init (local_state u) (remote_state u)
                        \<or> bfd_goes_up (local_state u) (remote_state u) then None
                else thread_rst u)"
     "remote_tx_intv u' = remote_tx_intv u" "remote_state u' = remote_state u"
     "poll u' = poll u" "final u' = final u" "sent u' = sent u"
    by blast
  obtain t2 where dem: "bfd_handle_demand r u' = Some (u'\<lparr>thread_out := t2\<rparr>)"
    using bfd_handle_demand_result by blast
  obtain t3 where seen: "bfd_handle_seen now (bfd_handle_poll h (u'\<lparr>thread_out := t2\<rparr>)) =
      Some ((bfd_handle_poll h (u'\<lparr>thread_out := t2\<rparr>))\<lparr>last_seen := now, thread_exp := t3\<rparr>)"
    using bfd_handle_seen_result by blast
  have run: "bfd_handle_packet fa fd r now pkt s =
      Some ((bfd_handle_poll h (u'\<lparr>thread_out := t2\<rparr>))\<lparr>last_seen := now, thread_exp := t3\<rparr>)"
    using acc red sm dem seen
    by (simp add: bfd_handle_packet_def bfd_accepted_def h_def [symmetric] s1_def [symmetric]
                  u_def [symmetric])
  show ?thesis
    unfolding run using inv
    by (simp add: bfd_handle_poll_def u' u h_def [symmetric] s1_def [symmetric])
qed

lemma bfd_handle_packet_discards:
  assumes "\<not> bfd_accepted fa fd pkt s"
  shows "bfd_handle_packet fa fd r now pkt s = Some s"
  using assms by (auto simp: bfd_handle_packet_def bfd_accepted_def)

subsection \<open>The reset timer is never scheduled on an Up or Init session\<close>

lemma bfd_timers_ok_handle_packet:
  assumes "bfd_timers_ok s" and "bfd_handle_packet fa fd r now pkt s = Some s'"
  shows "bfd_timers_ok s'"
proof (cases "bfd_accepted fa fd pkt s")
  case True
  from bfd_handle_packet_fields [OF True assms(1), of r now] assms(2)
  have "local_state s' \<noteq> BFD_STATE_DOWN \<longrightarrow> thread_rst s' = None" by auto
  then show ?thesis
    by (auto simp: bfd_timers_ok_def bfd_is_defs bfd_state_defs)
next
  case False
  then show ?thesis
    using assms by (simp add: bfd_handle_packet_discards)
qed

lemma bfd_timers_ok_expire_thread:
  assumes "bfd_timers_ok s" and "bfd_expire_thread now s = Some s'"
  shows "bfd_timers_ok s'"
proof -
  from assms(2) have up: "BFD_ISUP s \<or> BFD_ISINIT s"
    by (auto simp: bfd_expire_thread_def c_assert_def split: if_splits)
  with assms(1) have "thread_rst s = None"
    by (simp add: bfd_timers_ok_def)
  with assms(2) up have "local_state s' = BFD_STATE_DOWN"
    by (auto simp: bfd_expire_thread_def c_assert_def bfd_state_down_result BFD_VALID_DIAG_def
                   bfd_diag_defs bfd_event_send_def)
  then show ?thesis
    by (simp add: bfd_timers_ok_def bfd_is_defs bfd_state_defs)
qed

lemma bfd_timers_ok_reset_thread:
  assumes "bfd_reset_thread in_use draws s = Some s'"
  shows "bfd_timers_ok s'"
  using assms
  by (auto simp: bfd_reset_thread_def bfd_init_state_def c_assert_def bfd_copy_state_def
                 bfd_timers_ok_def Let_def split: if_splits option.splits)

lemma bfd_timers_ok_set_poll:
  assumes "bfd_timers_ok s"
  shows "bfd_timers_ok (bfd_set_poll s)"
  using assms by (simp add: bfd_timers_ok_def bfd_set_poll_def bfd_is_defs)

lemma bfd_state_admindown_fields:
  "\<exists>s'. bfd_state_admindown now s = Some s' \<and> local_state s' = BFD_STATE_ADMINDOWN"
  by (cases "thread_out s")
     (simp_all add: bfd_state_admindown_def bfd_state_fall_result bfd_timer_defs
                    bfd_event_send_def)

lemma bfd_sender_schedule_fields:
  assumes "bfd_sender_schedule r s = Some s'"
  shows "local_state s' = local_state s \<and> thread_rst s' = thread_rst s"
  using assms by (auto simp: bfd_sender_schedule_def c_assert_def Let_def split: if_splits)

lemma bfd_timers_ok_sender_thread:
  assumes "bfd_timers_ok s" and "bfd_sender_thread r now is_event send_ok s = Some s'"
  shows "bfd_timers_ok s'"
proof (cases send_ok)
  case True
  let ?u = "s\<lparr>thread_out := None, sent := sent s @ [bfd_build_packet pkt0 (s\<lparr>thread_out := None\<rparr>)]\<rparr>"
  let ?v = "if final ?u \<noteq> 0 then ?u\<lparr>final := 0\<rparr> else ?u"
  have v: "local_state ?v = local_state s" "thread_rst ?v = thread_rst s"
    by simp_all
  from assms(2) True
  have "s' = ?v \<or> bfd_sender_schedule r ?v = Some s'"
    by (auto simp: bfd_sender_thread_def c_assert_def Let_def split: if_splits)
  then have "local_state s' = local_state s \<and> thread_rst s' = thread_rst s"
    using v bfd_sender_schedule_fields [of r ?v s'] by auto
  then show ?thesis
    using assms(1) by (simp add: bfd_timers_ok_def bfd_is_defs)
next
  case False
  let ?u = "s\<lparr>thread_out := None, sent := sent s @ [bfd_build_packet pkt0 (s\<lparr>thread_out := None\<rparr>)]\<rparr>"
  obtain w where w: "bfd_state_admindown now ?u = Some w"
    "local_state w = BFD_STATE_ADMINDOWN"
    using bfd_state_admindown_fields by blast
  from assms(2) False w
  have "local_state s' = BFD_STATE_ADMINDOWN"
    by (auto simp: bfd_sender_thread_def c_assert_def Let_def bfd_is_defs split: if_splits)
  then show ?thesis
    by (simp add: bfd_timers_ok_def bfd_is_defs bfd_state_defs)
qed

lemma bfd_reachable_timers_ok:
  assumes "bfd_reachable s"
  shows "bfd_timers_ok s"
  using assms
proof (induction rule: bfd_reachable.induct)
  case (bfd_reachable_start s)
  then show ?case by (simp add: bfd_timers_ok_def)
next
  case (bfd_reachable_packet s fa fd r now pkt s')
  then show ?case by (blast intro: bfd_timers_ok_handle_packet)
next
  case (bfd_reachable_sender s r now is_event send_ok s')
  then show ?case by (blast intro: bfd_timers_ok_sender_thread)
next
  case (bfd_reachable_expire s now s')
  then show ?case by (blast intro: bfd_timers_ok_expire_thread)
next
  case (bfd_reachable_reset s in_use draws s')
  then show ?case by (blast intro: bfd_timers_ok_reset_thread)
next
  case (bfd_reachable_poll s)
  then show ?case by (simp add: bfd_timers_ok_set_poll)
qed

section \<open>Packet validation\<close>

text \<open>
  Claim C5. \<^verbatim>\<open>bfd_check_packet\<close> returns nonzero exactly when one of these holds: the
  received length is below 24; the header's length field differs from the received
  length; a TTL is present (nonzero) and is not 255; the version is not 1; the detection
  multiplier is 0; the multipoint flag is set; "my discriminator" is 0; "your
  discriminator" is 0 while the state is neither Down nor AdminDown; poll and final are
  both set; the state is out of range; the diagnostic is out of range (above 8).
\<close>

theorem bfd_check_packet_rejects_iff:
  "bfd_check_packet pkt \<noteq> 0 \<longleftrightarrow>
     unat (pkt_len pkt) < 24
   \<or> ucast (hdr_len (pkt_hdr pkt)) \<noteq> pkt_len pkt
   \<or> (pkt_ttl pkt \<noteq> 0 \<and> pkt_ttl pkt \<noteq> 255)
   \<or> hdr_version (pkt_hdr pkt) \<noteq> 1
   \<or> hdr_detect_mult (pkt_hdr pkt) = 0
   \<or> hdr_multipoint (pkt_hdr pkt) \<noteq> 0
   \<or> hdr_local_discr (pkt_hdr pkt) = 0
   \<or> (hdr_remote_discr (pkt_hdr pkt) = 0
        \<and> hdr_state (pkt_hdr pkt) \<noteq> BFD_STATE_DOWN
        \<and> hdr_state (pkt_hdr pkt) \<noteq> BFD_STATE_ADMINDOWN)
   \<or> (hdr_poll (pkt_hdr pkt) \<noteq> 0 \<and> hdr_final (pkt_hdr pkt) \<noteq> 0)
   \<or> 3 < uint (hdr_state (pkt_hdr pkt))
   \<or> 8 < uint (hdr_diag (pkt_hdr pkt))"
proof -
  have st: "\<not> 3 < uint w" for w :: "2 word"
    using uint_lt2p [of w] by simp
  have dg: "BFD_VALID_DIAG (uint w) = (\<not> 8 < uint w)" for w :: "5 word"
    by (auto simp: BFD_VALID_DIAG_def)
  have vs: "BFD_VALID_STATE (uint w)" for w :: "2 word"
    using st [of w] by (auto simp: BFD_VALID_STATE_def)
  show ?thesis
    unfolding bfd_check_packet_def BFD_CONTROL_TTL_def BFD_VERSION_1_def
    by (simp add: st dg vs)
qed

theorem bfd_check_packet_rejects_iff_witness:
  "bfd_check_packet (example_packet BFD_STATE_UP 0 0 0) = 0
   \<and> bfd_check_packet (example_packet BFD_STATE_UP 1 1 0) \<noteq> 0
   \<and> bfd_check_packet ((example_packet BFD_STATE_UP 0 0 0)\<lparr>pkt_ttl := 64\<rparr>) \<noteq> 0"
  using bfd_check_packet_rejects_iff [of "example_packet BFD_STATE_UP 0 0 0"]
        bfd_check_packet_rejects_iff [of "example_packet BFD_STATE_UP 1 1 0"]
        bfd_check_packet_rejects_iff [of "(example_packet BFD_STATE_UP 0 0 0)\<lparr>pkt_ttl := 64\<rparr>"]
  by (simp add: example_packet_def bfd_state_defs)

section \<open>The state machine on an accepted packet\<close>

text \<open>
  Claim C1. For every accepted control packet, on a session whose reset timer is not
  scheduled while it is Up or Init (every reachable session, by
  \<open>bfd_reachable_timers_ok\<close>), the handler returns and: if the packet's state is
  AdminDown and the local state is not Down, the local state becomes Down with
  diagnostic NBR_SIGNALLED_DOWN; if local is Down and remote is Down, local becomes
  Init; if local is Down and remote is Init, local becomes Up; if local is Init and
  remote is Init or Up, local becomes Up; if local is Up and remote is Down, local
  becomes Down with diagnostic NBR_SIGNALLED_DOWN; and on every transition to Up or
  Init the local diagnostic is cleared to 0.
\<close>

theorem bfd_handle_packet_transitions:
  assumes "bfd_accepted fa fd pkt s" and "bfd_timers_ok s"
  shows "\<exists>s'. bfd_handle_packet fa fd r now pkt s = Some s'
     \<and> (hdr_state (pkt_hdr pkt) = BFD_STATE_ADMINDOWN \<and> local_state s \<noteq> BFD_STATE_DOWN
          \<longrightarrow> local_state s' = BFD_STATE_DOWN \<and> local_diag s' = BFD_DIAG_NBR_SIGNALLED_DOWN)
     \<and> (local_state s = BFD_STATE_DOWN \<and> hdr_state (pkt_hdr pkt) = BFD_STATE_DOWN
          \<longrightarrow> local_state s' = BFD_STATE_INIT)
     \<and> (local_state s = BFD_STATE_DOWN \<and> hdr_state (pkt_hdr pkt) = BFD_STATE_INIT
          \<longrightarrow> local_state s' = BFD_STATE_UP)
     \<and> (local_state s = BFD_STATE_INIT
          \<and> (hdr_state (pkt_hdr pkt) = BFD_STATE_INIT \<or> hdr_state (pkt_hdr pkt) = BFD_STATE_UP)
          \<longrightarrow> local_state s' = BFD_STATE_UP)
     \<and> (local_state s = BFD_STATE_UP \<and> hdr_state (pkt_hdr pkt) = BFD_STATE_DOWN
          \<longrightarrow> local_state s' = BFD_STATE_DOWN \<and> local_diag s' = BFD_DIAG_NBR_SIGNALLED_DOWN)
     \<and> (local_state s' \<noteq> local_state s
          \<and> (local_state s' = BFD_STATE_UP \<or> local_state s' = BFD_STATE_INIT)
          \<longrightarrow> local_diag s' = 0)"
proof -
  from bfd_handle_packet_fields [OF assms, of r now]
  obtain s' where run: "bfd_handle_packet fa fd r now pkt s = Some s'"
    and st: "local_state s' =
         (if bfd_goes_down (local_state s) (hdr_state (pkt_hdr pkt)) then BFD_STATE_DOWN
          else if bfd_goes_init (local_state s) (hdr_state (pkt_hdr pkt)) then BFD_STATE_INIT
          else if bfd_goes_up (local_state s) (hdr_state (pkt_hdr pkt)) then BFD_STATE_UP
          else local_state s)"
    and dg: "local_diag s' =
         (if bfd_goes_down (local_state s) (hdr_state (pkt_hdr pkt))
          then BFD_DIAG_NBR_SIGNALLED_DOWN
          else if bfd_goes_init (local_state s) (hdr_state (pkt_hdr pkt))
                  \<or> bfd_goes_up (local_state s) (hdr_state (pkt_hdr pkt)) then BFD_DIAG_NO_DIAG
          else local_diag s)"
    by blast
  have "local_state s' = BFD_STATE_UP \<or> local_state s' = BFD_STATE_INIT \<Longrightarrow>
        local_state s' \<noteq> local_state s \<Longrightarrow> local_diag s' = 0"
    unfolding st dg by (auto simp: bfd_state_defs bfd_diag_defs split: if_splits)
  moreover have "bfd_goes_down (local_state s) (hdr_state (pkt_hdr pkt)) \<Longrightarrow>
        local_state s' = BFD_STATE_DOWN \<and> local_diag s' = BFD_DIAG_NBR_SIGNALLED_DOWN"
    unfolding st dg by simp
  moreover have "bfd_goes_init (local_state s) (hdr_state (pkt_hdr pkt)) \<Longrightarrow>
        local_state s' = BFD_STATE_INIT"
    unfolding st by (auto simp: bfd_goes_defs bfd_state_defs)
  moreover have "bfd_goes_up (local_state s) (hdr_state (pkt_hdr pkt)) \<Longrightarrow>
        local_state s' = BFD_STATE_UP"
    unfolding st by (auto simp: bfd_goes_defs bfd_state_defs)
  ultimately show ?thesis
    using run by (auto simp: bfd_goes_defs)
qed

theorem bfd_handle_packet_transitions_witness:
  "(\<exists>s'. bfd_handle_packet example_find_addr example_find_discr example_rand_intv (5, 0)
            (example_packet BFD_STATE_DOWN 0 0 0) example_session = Some s'
        \<and> local_state s' = BFD_STATE_INIT \<and> local_diag s' = 0)
   \<and> (\<exists>s'. bfd_handle_packet example_find_addr example_find_discr example_rand_intv (5, 0)
            (example_packet BFD_STATE_INIT 0 0 0) example_session = Some s'
        \<and> local_state s' = BFD_STATE_UP \<and> local_diag s' = 0)
   \<and> (\<exists>s'. bfd_handle_packet example_find_addr example_find_discr example_rand_intv (5, 0)
            (example_packet BFD_STATE_UP 0 0 0)
            (example_session\<lparr>local_state := BFD_STATE_INIT\<rparr>) = Some s'
        \<and> local_state s' = BFD_STATE_UP \<and> local_diag s' = 0)
   \<and> (\<exists>s'. bfd_handle_packet example_find_addr example_find_discr example_rand_intv (5, 0)
            (example_packet BFD_STATE_DOWN 0 0 0)
            (example_session\<lparr>local_state := BFD_STATE_UP\<rparr>) = Some s'
        \<and> local_state s' = BFD_STATE_DOWN \<and> local_diag s' = BFD_DIAG_NBR_SIGNALLED_DOWN)
   \<and> (\<exists>s'. bfd_handle_packet example_find_addr example_find_discr example_rand_intv (5, 0)
            (example_packet BFD_STATE_ADMINDOWN 0 0 0)
            (example_session\<lparr>local_state := BFD_STATE_INIT\<rparr>) = Some s'
        \<and> local_state s' = BFD_STATE_DOWN \<and> local_diag s' = BFD_DIAG_NBR_SIGNALLED_DOWN)"
proof -
  have acc: "bfd_accepted example_find_addr example_find_discr (example_packet st 0 0 0)
               (example_session\<lparr>local_state := l\<rparr>) = (l \<noteq> 0)" for st l
    using example_accepted [of "example_session\<lparr>local_state := l\<rparr>" 0 0 st]
    by (auto simp: bfd_accepted_def bfd_state_defs)
  have acc0: "bfd_accepted example_find_addr example_find_discr (example_packet st 0 0 0)
               example_session" for st
    by (simp add: example_accepted example_session_fields bfd_state_defs)
  have ok: "bfd_timers_ok (example_session\<lparr>local_state := l\<rparr>)" "bfd_timers_ok example_session"
    for l
    by (simp_all add: bfd_timers_ok_def example_session_fields)
  note hs = example_packet_fields(1)
  note ex = example_session_fields(1)
  note run = bfd_handle_packet_transitions [where fa = example_find_addr
      and fd = example_find_discr and r = example_rand_intv and now = "(5, 0)"]
  have "\<exists>s'. bfd_handle_packet example_find_addr example_find_discr example_rand_intv (5, 0)
            (example_packet BFD_STATE_DOWN 0 0 0) example_session = Some s'
        \<and> local_state s' = BFD_STATE_INIT \<and> local_diag s' = 0"
    using run [where pkt = "example_packet BFD_STATE_DOWN 0 0 0" and s = example_session]
    by (simp add: acc acc0 ok hs ex bfd_state_defs bfd_diag_defs) auto
  moreover
  have "\<exists>s'. bfd_handle_packet example_find_addr example_find_discr example_rand_intv (5, 0)
            (example_packet BFD_STATE_INIT 0 0 0) example_session = Some s'
        \<and> local_state s' = BFD_STATE_UP \<and> local_diag s' = 0"
    using run [where pkt = "example_packet BFD_STATE_INIT 0 0 0" and s = example_session]
    by (simp add: acc acc0 ok hs ex bfd_state_defs bfd_diag_defs) auto
  moreover
  have "\<exists>s'. bfd_handle_packet example_find_addr example_find_discr example_rand_intv (5, 0)
            (example_packet BFD_STATE_UP 0 0 0)
            (example_session\<lparr>local_state := BFD_STATE_INIT\<rparr>) = Some s'
        \<and> local_state s' = BFD_STATE_UP \<and> local_diag s' = 0"
    using run [where pkt = "example_packet BFD_STATE_UP 0 0 0"
                 and s = "example_session\<lparr>local_state := BFD_STATE_INIT\<rparr>"]
    by (simp add: acc acc0 ok hs ex bfd_state_defs bfd_diag_defs) auto
  moreover
  have "\<exists>s'. bfd_handle_packet example_find_addr example_find_discr example_rand_intv (5, 0)
            (example_packet BFD_STATE_DOWN 0 0 0)
            (example_session\<lparr>local_state := BFD_STATE_UP\<rparr>) = Some s'
        \<and> local_state s' = BFD_STATE_DOWN \<and> local_diag s' = BFD_DIAG_NBR_SIGNALLED_DOWN"
    using run [where pkt = "example_packet BFD_STATE_DOWN 0 0 0"
                 and s = "example_session\<lparr>local_state := BFD_STATE_UP\<rparr>"]
    by (simp add: acc acc0 ok hs ex bfd_state_defs bfd_diag_defs) auto
  moreover
  have "\<exists>s'. bfd_handle_packet example_find_addr example_find_discr example_rand_intv (5, 0)
            (example_packet BFD_STATE_ADMINDOWN 0 0 0)
            (example_session\<lparr>local_state := BFD_STATE_INIT\<rparr>) = Some s'
        \<and> local_state s' = BFD_STATE_DOWN \<and> local_diag s' = BFD_DIAG_NBR_SIGNALLED_DOWN"
    using run [where pkt = "example_packet BFD_STATE_ADMINDOWN 0 0 0"
                 and s = "example_session\<lparr>local_state := BFD_STATE_INIT\<rparr>"]
    by (simp add: acc acc0 ok hs ex bfd_state_defs bfd_diag_defs) auto
  ultimately show ?thesis by blast
qed

text \<open>
  Claim C2 says that an accepted packet whose state field is Up, received while the
  local state is Down, takes the local state to Up. The state machine has no branch for
  this pair: the session stays Down.
\<close>

theorem bfd_down_sees_up_counterexample:
  "bfd_accepted example_find_addr example_find_discr (example_packet BFD_STATE_UP 0 0 0)
     example_session
   \<and> hdr_state (pkt_hdr (example_packet BFD_STATE_UP 0 0 0)) = BFD_STATE_UP
   \<and> local_state example_session = BFD_STATE_DOWN
   \<and> map_option local_state
        (bfd_handle_packet example_find_addr example_find_discr example_rand_intv (5, 0)
           (example_packet BFD_STATE_UP 0 0 0) example_session) = Some BFD_STATE_DOWN
   \<and> (BFD_STATE_DOWN :: 2 word) \<noteq> BFD_STATE_UP"
proof -
  have acc: "bfd_accepted example_find_addr example_find_discr
               (example_packet BFD_STATE_UP 0 0 0) example_session"
    by (simp add: example_accepted example_session_fields bfd_state_defs)
  have ok: "bfd_timers_ok example_session"
    by (simp add: bfd_timers_ok_def example_session_fields)
  from bfd_handle_packet_fields [OF acc ok, of example_rand_intv "(5, 0)"]
  have "map_option local_state
        (bfd_handle_packet example_find_addr example_find_discr example_rand_intv (5, 0)
           (example_packet BFD_STATE_UP 0 0 0) example_session) = Some BFD_STATE_DOWN"
    by (auto simp: example_packet_fields example_session_fields bfd_goes_defs bfd_state_defs)
  then show ?thesis
    using acc by (simp add: example_packet_fields example_session_fields) (simp add: bfd_state_defs)
qed

text \<open>
  Claim C2, amended. For every accepted packet whose state field is Up, received while
  the local state is Down, the handler returns and the local state is still Down, with
  the local diagnostic it had.
\<close>

theorem bfd_down_sees_up_stays_down:
  assumes "bfd_accepted fa fd pkt s"
      and "local_state s = BFD_STATE_DOWN"
      and "hdr_state (pkt_hdr pkt) = BFD_STATE_UP"
  shows "\<exists>s'. bfd_handle_packet fa fd r now pkt s = Some s'
           \<and> local_state s' = BFD_STATE_DOWN \<and> local_diag s' = local_diag s"
proof -
  have ok: "bfd_timers_ok s"
    using assms(2) by (simp add: bfd_timers_ok_def bfd_is_defs bfd_state_defs)
  from bfd_handle_packet_fields [OF assms(1) ok, of r now]
  show ?thesis
    using assms(2,3) by (auto simp: bfd_goes_defs bfd_state_defs)
qed

theorem bfd_down_sees_up_stays_down_witness:
  "\<exists>s'. bfd_handle_packet example_find_addr example_find_discr example_rand_intv (5, 0)
           (example_packet BFD_STATE_UP 0 0 0) example_session = Some s'
        \<and> local_state s' = BFD_STATE_DOWN \<and> local_diag s' = local_diag example_session"
  using bfd_down_sees_up_stays_down [where fa = example_find_addr and fd = example_find_discr
          and r = example_rand_intv and now = "(5, 0)"
          and pkt = "example_packet BFD_STATE_UP 0 0 0" and s = example_session]
  by (simp add: example_accepted example_session_fields example_packet_fields bfd_state_defs)

section \<open>Expiration\<close>

text \<open>
  Claim C4. When the expiration timer fires on a session whose local state is Up or
  Init (its reset timer therefore not scheduled, as in every reachable session by
  \<open>bfd_reachable_timers_ok\<close>), the thread returns and the resulting
  state has \<open>remote_discr = 0\<close>, local state Down, local diagnostic EXPIRED,
  \<open>local_tx_intv\<close> reset to \<open>local_idle_tx_intv\<close>, the reset timer scheduled, the
  expiration timer not scheduled, and one more state-change event, for state Down, in
  the event pipe.
\<close>

theorem bfd_expire_thread_goes_down:
  assumes "local_state s = BFD_STATE_UP \<or> local_state s = BFD_STATE_INIT"
      and "bfd_timers_ok s"
  shows "\<exists>s'. bfd_expire_thread now s = Some s'
           \<and> remote_discr s' = 0
           \<and> local_state s' = BFD_STATE_DOWN
           \<and> local_diag s' = BFD_DIAG_EXPIRED
           \<and> local_tx_intv s' = local_idle_tx_intv s
           \<and> local_idle_tx_intv s' = local_idle_tx_intv s
           \<and> bfd_reset_scheduled s'
           \<and> thread_rst s' = Some (uint (local_detect_time s))
           \<and> \<not> bfd_expire_scheduled s'
           \<and> event_pipe s' = event_pipe s @
                 [\<lparr> evt_iname = take 31 (iname s), evt_state = ucast (BFD_STATE_DOWN :: 2 word),
                    evt_sent_time = now \<rparr>]"
proof -
  have rst: "thread_rst s = None"
    using assms by (auto simp: bfd_timers_ok_def bfd_is_defs)
  have "bfd_expire_thread now s =
      bfd_state_down now BFD_DIAG_EXPIRED (s\<lparr>thread_exp := None, remote_discr := 0\<rparr>)"
    using assms(1) by (auto simp: bfd_expire_thread_def c_assert_def bfd_is_defs)
  also have "\<dots> = Some (bfd_event_send now
       (s\<lparr>thread_exp := None, remote_discr := 0,
          local_state := BFD_STATE_DOWN, local_diag := ucast (BFD_DIAG_EXPIRED :: u8),
          thread_rst := Some (uint (local_detect_time s)),
          local_tx_intv := local_idle_tx_intv s, thread_exp := None\<rparr>))"
    using rst by (simp add: bfd_state_down_result BFD_VALID_DIAG_def bfd_diag_defs)
  finally show ?thesis
    by (simp add: bfd_event_send_def bfd_diag_defs bfd_reset_scheduled_def
                  bfd_expire_scheduled_def)
qed

theorem bfd_expire_thread_goes_down_witness:
  "\<exists>s'. bfd_expire_thread (5, 0)
           (example_session\<lparr>local_state := BFD_STATE_UP, thread_exp := Some 30000\<rparr>) = Some s'
        \<and> remote_discr s' = 0 \<and> local_state s' = BFD_STATE_DOWN
        \<and> local_diag s' = BFD_DIAG_EXPIRED \<and> local_tx_intv s' = 1000000
        \<and> bfd_reset_scheduled s' \<and> \<not> bfd_expire_scheduled s'
        \<and> event_pipe s' = [\<lparr> evt_iname = ''peerA'', evt_state = 1, evt_sent_time = (5, 0) \<rparr>]"
  using bfd_expire_thread_goes_down [where now = "(5, 0)"
          and s = "example_session\<lparr>local_state := BFD_STATE_UP, thread_exp := Some 30000\<rparr>"]
  by (simp add: bfd_timers_ok_def bfd_is_defs example_session_def bfd_state_defs) auto

section \<open>The auth bit\<close>

text \<open>
  Claim C6 says that \<^verbatim>\<open>bfd_check_packet\<close> rejects every packet whose auth bit is set.
  It does not test the bit: a packet that is valid otherwise passes.
\<close>

theorem bfd_check_packet_auth_counterexample:
  "hdr_auth (pkt_hdr (example_packet BFD_STATE_UP 0 0 1)) = 1
   \<and> bfd_check_packet (example_packet BFD_STATE_UP 0 0 1) = 0"
  by (simp add: example_packet_checked example_packet_fields)

text \<open>
  Claim C6, amended. For every received packet whose auth bit is set,
  \<^verbatim>\<open>bfd_handle_packet\<close> discards it and leaves the session as it was, whether or not a
  session was found for the packet; \<^verbatim>\<open>bfd_check_packet\<close> gives the verdict it gives
  for the same packet with the auth bit clear.
\<close>

theorem bfd_handle_packet_auth_discarded:
  assumes "hdr_auth (pkt_hdr pkt) \<noteq> 0"
  shows "bfd_handle_packet fa fd r now pkt s = Some s
         \<and> bfd_check_packet pkt
             = bfd_check_packet (pkt\<lparr>pkt_hdr := (pkt_hdr pkt)\<lparr>hdr_auth := 0\<rparr>\<rparr>)"
  using assms by (simp add: bfd_handle_packet_def bfd_check_packet_def)

theorem bfd_handle_packet_auth_discarded_witness:
  "bfd_handle_packet example_find_addr example_find_discr example_rand_intv (5, 0)
      (example_packet BFD_STATE_UP 0 0 1) example_session = Some example_session
   \<and> bfd_check_packet (example_packet BFD_STATE_UP 0 0 1)
       = bfd_check_packet ((example_packet BFD_STATE_UP 0 0 1)
            \<lparr>pkt_hdr := (pkt_hdr (example_packet BFD_STATE_UP 0 0 1))\<lparr>hdr_auth := 0\<rparr>\<rparr>)"
  using bfd_handle_packet_auth_discarded [where fa = example_find_addr
          and fd = example_find_discr and r = example_rand_intv and now = "(5, 0)"
          and pkt = "example_packet BFD_STATE_UP 0 0 1" and s = example_session]
  by (simp add: example_packet_fields)

section \<open>Interval recomputation\<close>

text \<open>
  Claim C7 says that on an accepted packet received while the local state is Up, with
  neither Poll nor Final, both interval fields are left unchanged. When such a packet
  carries the state Down, the session goes Down and \<^verbatim>\<open>bfd_state_fall\<close> sets
  \<open>local_tx_intv\<close> to the idle interval: here from 10 ms to 1 s.
\<close>

theorem bfd_handle_packet_intervals_counterexample:
  "bfd_accepted example_find_addr example_find_discr (example_packet BFD_STATE_DOWN 0 0 0)
     (example_session\<lparr>local_state := BFD_STATE_UP, local_tx_intv := 10000\<rparr>)
   \<and> local_state (example_session\<lparr>local_state := BFD_STATE_UP, local_tx_intv := 10000\<rparr>)
       = BFD_STATE_UP
   \<and> hdr_poll (pkt_hdr (example_packet BFD_STATE_DOWN 0 0 0)) = 0
   \<and> hdr_final (pkt_hdr (example_packet BFD_STATE_DOWN 0 0 0)) = 0
   \<and> local_tx_intv (example_session\<lparr>local_state := BFD_STATE_UP, local_tx_intv := 10000\<rparr>)
       = 10000
   \<and> map_option local_tx_intv
        (bfd_handle_packet example_find_addr example_find_discr example_rand_intv (5, 0)
           (example_packet BFD_STATE_DOWN 0 0 0)
           (example_session\<lparr>local_state := BFD_STATE_UP, local_tx_intv := 10000\<rparr>))
       = Some 1000000"
proof -
  let ?s = "example_session\<lparr>local_state := BFD_STATE_UP, local_tx_intv := 10000\<rparr>"
  have acc: "bfd_accepted example_find_addr example_find_discr
               (example_packet BFD_STATE_DOWN 0 0 0) ?s"
    by (simp add: example_accepted bfd_state_defs)
  have ok: "bfd_timers_ok ?s"
    by (simp add: bfd_timers_ok_def example_session_fields)
  from bfd_handle_packet_fields [OF acc ok, of example_rand_intv "(5, 0)"]
  have "map_option local_tx_intv
        (bfd_handle_packet example_find_addr example_find_discr example_rand_intv (5, 0)
           (example_packet BFD_STATE_DOWN 0 0 0) ?s) = Some 1000000"
    by (auto simp: example_packet_fields example_session_fields bfd_goes_defs bfd_state_defs)
  then show ?thesis
    using acc by (simp add: example_packet_fields)
qed

text \<open>
  Claim C7, amended. On every accepted packet the recomputation sets \<open>local_tx_intv\<close>
  to \<open>max local_min_tx_intv remote_min_rx_intv\<close> and \<open>remote_tx_intv\<close> to
  \<open>max local_min_rx_intv remote_min_tx_intv\<close> when the packet carried the Final bit or
  the Poll bit or the local state is not Up, and leaves both as they were in the
  remaining case. \<open>remote_tx_intv\<close> has that value when the handler returns, and so has
  \<open>local_tx_intv\<close> unless the packet takes the session Down (state AdminDown while the
  session is not Down, or state Down while it is Up): then \<open>local_tx_intv\<close> is
  \<open>local_idle_tx_intv\<close>.
\<close>

theorem bfd_handle_packet_intervals:
  assumes "bfd_accepted fa fd pkt s" and "bfd_timers_ok s"
  shows "\<exists>s'. bfd_handle_packet fa fd r now pkt s = Some s'
     \<and> local_tx_intv (bfd_handle_intervals (pkt_hdr pkt) (bfd_handle_remote (pkt_hdr pkt) s))
         = (if hdr_final (pkt_hdr pkt) \<noteq> 0 \<or> hdr_poll (pkt_hdr pkt) \<noteq> 0
               \<or> local_state s \<noteq> BFD_STATE_UP
            then max (local_min_tx_intv s) (ntohl (hdr_min_rx_intv (pkt_hdr pkt)))
            else local_tx_intv s)
     \<and> remote_tx_intv s'
         = (if hdr_final (pkt_hdr pkt) \<noteq> 0 \<or> hdr_poll (pkt_hdr pkt) \<noteq> 0
               \<or> local_state s \<noteq> BFD_STATE_UP
            then max (local_min_rx_intv s) (ntohl (hdr_min_tx_intv (pkt_hdr pkt)))
            else remote_tx_intv s)
     \<and> local_tx_intv s'
         = (if (hdr_state (pkt_hdr pkt) = BFD_STATE_ADMINDOWN \<and> local_state s \<noteq> BFD_STATE_DOWN)
               \<or> (local_state s = BFD_STATE_UP \<and> hdr_state (pkt_hdr pkt) = BFD_STATE_DOWN)
            then local_idle_tx_intv s
            else if hdr_final (pkt_hdr pkt) \<noteq> 0 \<or> hdr_poll (pkt_hdr pkt) \<noteq> 0
                    \<or> local_state s \<noteq> BFD_STATE_UP
            then max (local_min_tx_intv s) (ntohl (hdr_min_rx_intv (pkt_hdr pkt)))
            else local_tx_intv s)"
proof -
  have l: "local_tx_intv (bfd_handle_intervals (pkt_hdr pkt) (bfd_handle_remote (pkt_hdr pkt) s))
         = (if hdr_final (pkt_hdr pkt) \<noteq> 0 \<or> hdr_poll (pkt_hdr pkt) \<noteq> 0
               \<or> local_state s \<noteq> BFD_STATE_UP
            then max (local_min_tx_intv s) (ntohl (hdr_min_rx_intv (pkt_hdr pkt)))
            else local_tx_intv s)"
    by (simp add: bfd_handle_intervals_fields(8) bfd_handle_remote_fields)
  have r: "remote_tx_intv (bfd_handle_intervals (pkt_hdr pkt) (bfd_handle_remote (pkt_hdr pkt) s))
         = (if hdr_final (pkt_hdr pkt) \<noteq> 0 \<or> hdr_poll (pkt_hdr pkt) \<noteq> 0
               \<or> local_state s \<noteq> BFD_STATE_UP
            then max (local_min_rx_intv s) (ntohl (hdr_min_tx_intv (pkt_hdr pkt)))
            else remote_tx_intv s)"
    by (simp add: bfd_handle_intervals_fields(9) bfd_handle_remote_fields)
  from bfd_handle_packet_fields [OF assms, of r now]
  obtain s' where run: "bfd_handle_packet fa fd r now pkt s = Some s'"
    and ls: "local_tx_intv s' =
         (if bfd_goes_down (local_state s) (hdr_state (pkt_hdr pkt)) then local_idle_tx_intv s
          else local_tx_intv (bfd_handle_intervals (pkt_hdr pkt)
                                (bfd_handle_remote (pkt_hdr pkt) s)))"
    and rs: "remote_tx_intv s' =
          remote_tx_intv (bfd_handle_intervals (pkt_hdr pkt)
                                (bfd_handle_remote (pkt_hdr pkt) s))"
    by blast
  have "remote_tx_intv s'
         = (if hdr_final (pkt_hdr pkt) \<noteq> 0 \<or> hdr_poll (pkt_hdr pkt) \<noteq> 0
               \<or> local_state s \<noteq> BFD_STATE_UP
            then max (local_min_rx_intv s) (ntohl (hdr_min_tx_intv (pkt_hdr pkt)))
            else remote_tx_intv s)"
    unfolding rs r by (rule refl)
  moreover have "local_tx_intv s'
         = (if (hdr_state (pkt_hdr pkt) = BFD_STATE_ADMINDOWN \<and> local_state s \<noteq> BFD_STATE_DOWN)
               \<or> (local_state s = BFD_STATE_UP \<and> hdr_state (pkt_hdr pkt) = BFD_STATE_DOWN)
            then local_idle_tx_intv s
            else if hdr_final (pkt_hdr pkt) \<noteq> 0 \<or> hdr_poll (pkt_hdr pkt) \<noteq> 0
                    \<or> local_state s \<noteq> BFD_STATE_UP
            then max (local_min_tx_intv s) (ntohl (hdr_min_rx_intv (pkt_hdr pkt)))
            else local_tx_intv s)"
    unfolding ls l by (simp add: bfd_goes_down_def)
  ultimately show ?thesis
    using run l by blast
qed

theorem bfd_handle_packet_intervals_witness:
  "(\<exists>s'. bfd_handle_packet example_find_addr example_find_discr example_rand_intv (5, 0)
           (example_packet BFD_STATE_DOWN 0 0 0) example_session = Some s'
        \<and> remote_tx_intv s' = 10000 \<and> local_tx_intv s' = 10000)
   \<and> (\<exists>s'. bfd_handle_packet example_find_addr example_find_discr example_rand_intv (5, 0)
           (example_packet BFD_STATE_UP 0 0 0)
           (example_session\<lparr>local_state := BFD_STATE_UP\<rparr>) = Some s'
        \<and> remote_tx_intv s' = 0 \<and> local_tx_intv s' = 1000000)"
proof -
  have ok: "bfd_timers_ok (example_session\<lparr>local_state := l\<rparr>)" "bfd_timers_ok example_session"
    for l
    by (simp_all add: bfd_timers_ok_def example_session_fields)
  note run = bfd_handle_packet_intervals [where fa = example_find_addr
      and fd = example_find_discr and r = example_rand_intv and now = "(5, 0)"]
  have "\<exists>s'. bfd_handle_packet example_find_addr example_find_discr example_rand_intv (5, 0)
           (example_packet BFD_STATE_DOWN 0 0 0) example_session = Some s'
        \<and> remote_tx_intv s' = 10000 \<and> local_tx_intv s' = 10000"
    using run [where pkt = "example_packet BFD_STATE_DOWN 0 0 0" and s = example_session]
    by (simp add: example_accepted ok example_packet_fields example_session_fields ntohl_0
                  bfd_state_defs) auto
  moreover
  have "\<exists>s'. bfd_handle_packet example_find_addr example_find_discr example_rand_intv (5, 0)
           (example_packet BFD_STATE_UP 0 0 0)
           (example_session\<lparr>local_state := BFD_STATE_UP\<rparr>) = Some s'
        \<and> remote_tx_intv s' = 0 \<and> local_tx_intv s' = 1000000"
    using run [where pkt = "example_packet BFD_STATE_UP 0 0 0"
                 and s = "example_session\<lparr>local_state := BFD_STATE_UP\<rparr>"]
    by (simp add: example_accepted ok example_packet_fields example_session_fields ntohl_0
                  bfd_state_defs) auto
  ultimately show ?thesis by blast
qed

section \<open>Poll and Final\<close>

lemma bfd_check_packet_poll_final:
  assumes "hdr_poll (pkt_hdr pkt) \<noteq> 0" and "hdr_final (pkt_hdr pkt) \<noteq> 0"
  shows "bfd_check_packet pkt = 1"
  using assms by (simp add: bfd_check_packet_def)

lemma bfd_sender_thread_event_sent:
  assumes "local_state s \<noteq> BFD_STATE_ADMINDOWN"
  shows "\<exists>s'. bfd_sender_thread r now True True s = Some s'
           \<and> sent s' = sent s @ [bfd_build_packet pkt0 s]"
  using assms
  by (simp add: bfd_sender_thread_def c_assert_def bfd_is_defs Let_def bfd_build_packet_def)

lemma bfd_set_poll_keeps_apart:
  assumes "\<not> (poll s = 1 \<and> final s = 1)"
  shows "\<not> (poll (bfd_set_poll s) = 1 \<and> final (bfd_set_poll s) = 1)"
  using assms by (auto simp: bfd_set_poll_def)

text \<open>
  Claim C3 says that in every reachable session state poll and final are never both 1
  and that no packet is built with both bits set. \<^verbatim>\<open>bfd_set_poll\<close> keeps them apart,
  but the handler sets \<open>final\<close> on a packet that carries Poll without looking at
  \<open>poll\<close>. The session starts a poll sequence and then receives an accepted packet with
  the Poll bit: the state is reachable, both flags are 1, the packet built from the
  session has both bits set, the queued sender run hands it to \<^verbatim>\<open>sendto\<close>, and
  \<^verbatim>\<open>bfd_check_packet\<close> itself rejects such a packet.
\<close>

theorem bfd_poll_and_final_both_set:
  "bfd_reachable (bfd_set_poll example_session)
   \<and> map_option bfd_reachable
        (bfd_handle_packet example_find_addr example_find_discr example_rand_intv (5, 0)
           (example_packet BFD_STATE_DOWN 1 0 0) (bfd_set_poll example_session)) = Some True
   \<and> poll (bfd_set_poll example_session) = 1 \<and> final (bfd_set_poll example_session) = 0
   \<and> bfd_accepted example_find_addr example_find_discr (example_packet BFD_STATE_DOWN 1 0 0)
        (bfd_set_poll example_session)
   \<and> map_option poll
        (bfd_handle_packet example_find_addr example_find_discr example_rand_intv (5, 0)
           (example_packet BFD_STATE_DOWN 1 0 0) (bfd_set_poll example_session)) = Some 1
   \<and> map_option final
        (bfd_handle_packet example_find_addr example_find_discr example_rand_intv (5, 0)
           (example_packet BFD_STATE_DOWN 1 0 0) (bfd_set_poll example_session)) = Some 1
   \<and> map_option (\<lambda>s'. hdr_poll (pkt_hdr (bfd_build_packet pkt0 s')))
        (bfd_handle_packet example_find_addr example_find_discr example_rand_intv (5, 0)
           (example_packet BFD_STATE_DOWN 1 0 0) (bfd_set_poll example_session)) = Some 1
   \<and> map_option (\<lambda>s'. hdr_final (pkt_hdr (bfd_build_packet pkt0 s')))
        (bfd_handle_packet example_find_addr example_find_discr example_rand_intv (5, 0)
           (example_packet BFD_STATE_DOWN 1 0 0) (bfd_set_poll example_session)) = Some 1
   \<and> map_option (\<lambda>s'. bfd_check_packet (bfd_build_packet pkt0 s'))
        (bfd_handle_packet example_find_addr example_find_discr example_rand_intv (5, 0)
           (example_packet BFD_STATE_DOWN 1 0 0) (bfd_set_poll example_session)) = Some 1
   \<and> map_option (\<lambda>s'. map (\<lambda>p. (hdr_poll (pkt_hdr p), hdr_final (pkt_hdr p))) (sent s'))
        (Option.bind
           (bfd_handle_packet example_find_addr example_find_discr example_rand_intv (5, 0)
              (example_packet BFD_STATE_DOWN 1 0 0) (bfd_set_poll example_session))
           (bfd_sender_thread example_rand_intv (5, 0) True True)) = Some [(1, 1)]"
proof -
  let ?s = "bfd_set_poll example_session"
  let ?p = "example_packet BFD_STATE_DOWN 1 0 0"
  have sp: "poll ?s = 1" "final ?s = 0" "local_state ?s = BFD_STATE_DOWN" "sent ?s = []"
    by (simp_all add: bfd_set_poll_def example_session_def)
  have acc: "bfd_accepted example_find_addr example_find_discr ?p ?s"
    by (simp add: example_accepted sp bfd_state_defs)
  have ok: "bfd_timers_ok ?s"
    by (simp add: bfd_timers_ok_def bfd_is_defs sp bfd_state_defs)
  from bfd_handle_packet_fields [OF acc ok, of example_rand_intv "(5, 0)"]
  obtain s' where run: "bfd_handle_packet example_find_addr example_find_discr
        example_rand_intv (5, 0) ?p ?s = Some s'"
    and pf: "poll s' = 1" "final s' = 1"
    and st: "local_state s' = BFD_STATE_INIT"
    and sent0: "sent s' = []"
    by (auto simp: example_packet_fields sp bfd_goes_defs bfd_state_defs)
  have bits: "hdr_poll (pkt_hdr (bfd_build_packet pkt0 s')) = 1"
    "hdr_final (pkt_hdr (bfd_build_packet pkt0 s')) = 1"
    by (simp_all add: bfd_build_packet_def pf)
  have chk: "bfd_check_packet (bfd_build_packet pkt0 s') = 1"
    by (rule bfd_check_packet_poll_final) (simp_all add: bits)
  have "local_state s' \<noteq> BFD_STATE_ADMINDOWN"
    by (simp add: st bfd_state_defs)
  from bfd_sender_thread_event_sent [OF this, of example_rand_intv "(5, 0)"]
  obtain s'' where snd: "bfd_sender_thread example_rand_intv (5, 0) True True s' = Some s''"
    and out: "sent s'' = sent s' @ [bfd_build_packet pkt0 s']"
    by blast
  have "bfd_reachable example_session"
    by (rule bfd_reachable_start) (simp add: example_session_fields)
  then have r1: "bfd_reachable ?s"
    by (rule bfd_reachable_poll)
  then have r2: "bfd_reachable s'"
    using run by (rule bfd_reachable_packet)
  show ?thesis
    by (simp add: sp acc run pf bits chk snd out sent0 r1 r2)
qed

section \<open>Transmit jitter\<close>

text \<open>
  What the scheduled delay satisfies for a non-zero multiplier and a draw inside the
  interval \<^verbatim>\<open>rand_intv\<close> is called with: it is at least three quarters of the interval,
  at most the interval, and at most the interval less its truncated tenth.
\<close>

lemma bfd_sender_schedule_delay:
  assumes "thread_out s = None" and "local_detect_mult s \<noteq> 0"
      and "local_tx_intv s div 10 \<le> r (local_tx_intv s div 10) (local_tx_intv s div 4)"
      and "r (local_tx_intv s div 10) (local_tx_intv s div 4) \<le> local_tx_intv s div 4"
  shows "\<exists>d. bfd_sender_schedule r s = Some (s\<lparr>thread_out := Some d\<rparr>)
           \<and> 0.75 * real_of_int (uint (local_tx_intv s)) \<le> real_of_int d
           \<and> real_of_int d \<le> real_of_int (uint (local_tx_intv s))
           \<and> 10 * d \<le> 9 * uint (local_tx_intv s) + uint (local_tx_intv s) mod 10"
proof -
  define I where "I = uint (local_tx_intv s)"
  define j where "j = uint (r (local_tx_intv s div 10) (local_tx_intv s div 4))"
  have lo: "I div 10 \<le> j"
    using assms(3) by (simp add: word_le_def uint_div I_def j_def)
  have hi: "j \<le> I div 4"
    using assms(4) by (simp add: word_le_def uint_div I_def j_def)
  have I0: "0 \<le> I"
    by (simp add: I_def)
  have "j \<le> I"
    using hi I0 by presburger
  then have d: "uint (local_tx_intv s - r (local_tx_intv s div 10) (local_tx_intv s div 4))
                  = I - j"
    unfolding I_def j_def by (simp add: uint_sub_lem)
  have run: "bfd_sender_schedule r s = Some (s\<lparr>thread_out := Some (I - j)\<rparr>)"
    using assms(1,2) by (simp add: bfd_sender_schedule_def c_assert_def d)
  have a: "3 * I \<le> 4 * (I - j)"
    using hi I0 by presburger
  have b: "I - j \<le> I"
    using lo I0 by presburger
  have c: "10 * (I - j) \<le> 9 * I + I mod 10"
    using lo by presburger
  have "real_of_int (3 * I) \<le> real_of_int (4 * (I - j))"
    using a by (simp only: of_int_le_iff)
  then have a': "0.75 * real_of_int I \<le> real_of_int (I - j)"
    by simp
  have b': "real_of_int (I - j) \<le> real_of_int I"
    using b by (simp only: of_int_le_iff)
  show ?thesis
    using run a' b' c unfolding I_def [symmetric] by blast
qed

text \<open>
  Claim C8 bounds the delay by 0.90 of the interval when the multiplier is 1. The
  minimum jitter is the tenth of the interval truncated to whole microseconds, so for an
  interval that is not a multiple of 10 the smallest draw leaves more than 0.90 of it:
  with an interval of 1005, a multiplier of 1 and the draw 100, the delay is 905, above
  904.5.
\<close>

theorem bfd_sender_schedule_above_90_percent:
  "local_detect_mult (example_session\<lparr>thread_out := None, local_detect_mult := 1,
                                       local_tx_intv := 1005\<rparr>) = 1
   \<and> local_tx_intv (example_session\<lparr>thread_out := None, local_detect_mult := 1,
                                       local_tx_intv := 1005\<rparr>) = 1005
   \<and> example_rand_intv (1005 div 10) (1005 div 4) = 100
   \<and> (1005 :: u32) div 10 \<le> 100 \<and> (100 :: u32) \<le> 1005 div 4
   \<and> map_option thread_out
        (bfd_sender_schedule example_rand_intv
           (example_session\<lparr>thread_out := None, local_detect_mult := 1,
                             local_tx_intv := 1005\<rparr>)) = Some (Some 905)
   \<and> (0.90 :: real) * 1005 < 905"
  by (simp add: bfd_sender_schedule_def c_assert_def example_rand_intv_def)

section \<open>Reset\<close>

lemma bfd_get_random_discr_fresh:
  "bfd_get_random_discr in_use draws = Some d \<Longrightarrow> d \<noteq> 0 \<and> d \<notin> set in_use \<and> d \<in> set draws"
  by (induction draws) (auto split: if_splits)

lemma bfd_get_random_discr_returns:
  "d \<in> set draws \<Longrightarrow> d \<noteq> 0 \<Longrightarrow> d \<notin> set in_use
     \<Longrightarrow> \<exists>d'. bfd_get_random_discr in_use draws = Some d'"
  by (induction draws) auto

text \<open>
  Claim C9 says that after the reset every remote field, the remote state among them, is
  zero. The remote state is copied from \<^verbatim>\<open>bfd0\<close>, where it is \<^verbatim>\<open>BFD_STATE_DOWN\<close>,
  which is 1.
\<close>

theorem bfd_reset_thread_counterexample:
  "local_state (example_session\<lparr>thread_rst := Some 30000\<rparr>) = BFD_STATE_DOWN
   \<and> map_option remote_state
        (bfd_reset_thread [7] [0, 7, 9] (example_session\<lparr>thread_rst := Some 30000\<rparr>))
       = Some BFD_STATE_DOWN
   \<and> (BFD_STATE_DOWN :: 2 word) \<noteq> 0"
  by (simp add: bfd_reset_thread_def bfd_init_state_def bfd_copy_state_def bfd0_def
                c_assert_def example_session_def bfd_state_defs)

text \<open>
  Claim C9, amended. When the reset timer fires on a session and the discriminator
  generator returns \<open>d\<close>, the thread returns and: \<open>local_discr\<close> is \<open>d\<close>, which is not
  zero and not among the discriminators in use; the remote state is Down; the remote
  diagnostic, discriminator, minimum intervals, transmit interval, detection time,
  demand flag and detection multiplier are zero; \<open>local_tx_intv\<close> is
  \<open>local_idle_tx_intv\<close>; the local state is Down; the reset timer is not scheduled.
\<close>

theorem bfd_reset_thread_resets:
  assumes "thread_rst s \<noteq> None"
      and "bfd_get_random_discr in_use draws = Some d"
  shows "\<exists>s'. bfd_reset_thread in_use draws s = Some s'
           \<and> local_discr s' = d \<and> d \<noteq> 0 \<and> d \<notin> set in_use
           \<and> remote_state s' = BFD_STATE_DOWN
           \<and> remote_diag s' = 0 \<and> remote_discr s' = 0
           \<and> remote_min_tx_intv s' = 0 \<and> remote_min_rx_intv s' = 0
           \<and> remote_tx_intv s' = 0 \<and> remote_detect_time s' = 0
           \<and> remote_demand s' = 0 \<and> remote_detect_mult s' = 0
           \<and> local_tx_intv s' = local_idle_tx_intv s
           \<and> local_idle_tx_intv s' = local_idle_tx_intv s
           \<and> local_state s' = BFD_STATE_DOWN
           \<and> thread_rst s' = None"
  using assms bfd_get_random_discr_fresh [OF assms(2)]
  by (simp add: bfd_reset_thread_def bfd_init_state_def bfd_copy_state_def bfd0_def
                c_assert_def bfd_diag_defs)

theorem bfd_reset_thread_resets_witness:
  "\<exists>s'. bfd_reset_thread [7] [0, 7, 9] (example_session\<lparr>thread_rst := Some 30000\<rparr>) = Some s'
        \<and> local_discr s' = 9 \<and> remote_state s' = BFD_STATE_DOWN \<and> remote_discr s' = 0
        \<and> remote_tx_intv s' = 0 \<and> local_tx_intv s' = 1000000
        \<and> local_state s' = BFD_STATE_DOWN"
  using bfd_reset_thread_resets [where in_use = "[7]" and draws = "[0, 7, 9]" and d = 9
          and s = "example_session\<lparr>thread_rst := Some 30000\<rparr>"]
  by (simp add: example_session_fields) auto

section \<open>Configuration values out of range\<close>







end
